theory Spec2Isabelle
  imports Main "HOL-Library.Multiset"
begin

section \<open>Values, errors and the platform\<close>

text \<open>
  The program is one Python class, \<open>CryptoData\<close>, whose methods build a request URL,
  fetch it, parse the JSON answer, reshape it into a table and write the table as CSV.
  Exceptions are values of type \<open>error\<close>; a method that can raise returns
  \<open>error + 'a\<close>, with \<open>Inl\<close> for the exception.
\<close>

datatype json =
    JNull
  | JBool bool
  | JInt int
  | JFloat int int
  | JString string
  | JArray "json list"
  | JObject "(string \<times> json) list"

text \<open>
  \<open>JFloat m e\<close> stands for the float \<open>m * 2 ^ e\<close>. \<open>JObject\<close> lists the items of a
  Python \<open>dict\<close> in insertion order; a \<open>dict\<close> holds every key once.
\<close>

datatype error =
    PyException string
  | ValueError string
  | KeyError string
  | RequestException
  | JSONDecodeError
  | OSError
  | AttributeError

text \<open>
  \<open>PyException msg\<close> is Python's builtin \<open>Exception(msg)\<close>, the only exception the
  program raises itself. The others are raised by the libraries it calls.
\<close>

datatype cell = Val json | NaN | Datetime int

text \<open>
  A cell of a pandas table: a JSON value as parsed, the marker of a missing value, or a
  \<open>datetime\<close>, represented by its whole seconds since 1970-01-01 00:00:00 on the
  calendar it shows. The dtype conversions that pandas applies to whole columns are not
  modelled: a cell keeps the parsed value.
\<close>

record frame =
  columns :: "string list"
  rows :: "(string \<times> cell) list list"

text \<open>
  The functions of the Python library, of pandas, of requests and of the operating
  system that the program calls, and which are not part of the repository, are the
  fields of a \<open>platform\<close>. Each theorem holds for every platform.
\<close>

record platform =
  utc_offset :: "int \<Rightarrow> int"
  utcnow :: int
  http_get :: "string \<Rightarrow> nat \<Rightarrow> error + string"
  json_loads :: "string \<Rightarrow> error + json"
  py_str :: "json \<Rightarrow> string"
  pd_other :: "json \<Rightarrow> error + frame"
  utcfromtimestamp_other :: "cell \<Rightarrow> error + int"
  to_csv_text :: "frame \<Rightarrow> string"
  open_write :: "string \<Rightarrow> nat \<Rightarrow> bool"
  random_draw :: "nat \<Rightarrow> nat"

text \<open>
  \<^item> \<open>utc_offset P l\<close>: the offset east of UTC, in seconds, that \<open>time.mktime\<close> applies
    to the local wall-clock time \<open>l\<close> (seconds since 1970-01-01 00:00:00 on the naive
    calendar): the machine's time zone. \<open>mktime\<close> returns \<open>l - utc_offset P l\<close>.
  \<^item> \<open>utcnow P\<close>: the clock, as whole seconds of UTC.
  \<^item> \<open>http_get P url n\<close>: what the \<open>n\<close>-th call of \<open>requests.get\<close> of the process
    does: it raises, or returns a response with this text.
  \<^item> \<open>json_loads P\<close>: \<open>json.loads\<close>.
  \<^item> \<open>py_str P v\<close>: what an f-string writes for a value that is not a string.
  \<^item> \<open>pd_other P v\<close>: \<open>pd.DataFrame(v)\<close> for a \<open>v\<close> that is not a list of objects.
  \<^item> \<open>utcfromtimestamp_other P c\<close>: \<open>datetime.utcfromtimestamp\<close> on a cell that is not
    an integer.
  \<^item> \<open>to_csv_text P df\<close>: the CSV text pandas serialises \<open>df\<close> to, without index.
  \<^item> \<open>open_write P path n\<close>: whether the \<open>n\<close>-th attempt of the process to open a
    file for writing succeeds.
  \<^item> \<open>random_draw P k\<close>: the \<open>k\<close>-th draw of the random generator.
\<close>

section \<open>Python strings and numbers\<close>

definition upper_char :: "char \<Rightarrow> char" where
  "upper_char c =
     (if 97 \<le> (of_char c :: nat) \<and> (of_char c :: nat) \<le> 122
      then char_of ((of_char c :: nat) - 32) else c)"

definition upper :: "string \<Rightarrow> string" where
  "upper s = map upper_char s"

text \<open>\<open>str.upper\<close> on ASCII text; other characters are left as they are.\<close>

definition digit_char :: "nat \<Rightarrow> char" where
  "digit_char d = ''0123456789'' ! d"

fun str_nat :: "nat \<Rightarrow> string" where
  "str_nat n = (if n < 10 then [digit_char n] else str_nat (n div 10) @ [digit_char (n mod 10)])"

declare str_nat.simps [simp del]

definition str_int :: "int \<Rightarrow> string" where
  "str_int i = (if i < 0 then CHR ''-'' # str_nat (nat (- i)) else str_nat (nat i))"

definition is_digit :: "char \<Rightarrow> bool" where
  "is_digit c = (48 \<le> (of_char c :: nat) \<and> (of_char c :: nat) \<le> 57)"

definition digit_val :: "char \<Rightarrow> int" where
  "digit_val c = int (of_char c) - 48"

definition repr_str :: "string \<Rightarrow> string" where
  "repr_str s = CHR 0x27 # s @ [CHR 0x27]"

fun join :: "string \<Rightarrow> string list \<Rightarrow> string" where
  "join sep [] = []"
| "join sep [x] = x"
| "join sep (x # y # ys) = x @ sep @ join sep (y # ys)"

definition repr_str_list :: "string list \<Rightarrow> string" where
  "repr_str_list xs = ''['' @ join '', '' (map repr_str xs) @ '']''"

text \<open>
  \<open>repr\<close> of a string without quotes, backslashes or unprintable characters, and of a
  list of such strings, as an f-string writes the list.
\<close>

section \<open>Calendar dates\<close>

text \<open>
  \<open>datetime.strptime(s, '%Y-%m-%d')\<close>: the directive \<open>%Y\<close> takes four digits, \<open>%m\<close> takes
  \<open>1[0-2]\<close>, \<open>0[1-9]\<close> or \<open>[1-9]\<close>, and \<open>%d\<close> takes \<open>3[01]\<close>, \<open>[12]\d\<close>, \<open>0[1-9]\<close>,
  \<open>[1-9]\<close> or a space and \<open>[1-9]\<close>; the whole string must be used, the year must be at
  least 1 and the day must exist in the month. Anything else raises \<open>ValueError\<close>.
\<close>

definition parse_year :: "string \<Rightarrow> int option" where
  "parse_year s =
     (case s of
        [a, b, c, d] \<Rightarrow>
          (if is_digit a \<and> is_digit b \<and> is_digit c \<and> is_digit d
           then Some (1000 * digit_val a + 100 * digit_val b + 10 * digit_val c + digit_val d)
           else None)
      | _ \<Rightarrow> None)"

definition parse_month :: "string \<Rightarrow> int option" where
  "parse_month s =
     (case s of
        [a, b] \<Rightarrow>
          (if a = CHR ''1'' \<and> is_digit b \<and> digit_val b \<le> 2 then Some (10 + digit_val b)
           else if a = CHR ''0'' \<and> is_digit b \<and> 1 \<le> digit_val b then Some (digit_val b)
           else None)
      | [b] \<Rightarrow> (if is_digit b \<and> 1 \<le> digit_val b then Some (digit_val b) else None)
      | _ \<Rightarrow> None)"

definition parse_day :: "string \<Rightarrow> int option" where
  "parse_day s =
     (case s of
        [a, b] \<Rightarrow>
          (if a = CHR ''3'' \<and> is_digit b \<and> digit_val b \<le> 1 then Some (30 + digit_val b)
           else if (a = CHR ''1'' \<or> a = CHR ''2'') \<and> is_digit b
             then Some (10 * digit_val a + digit_val b)
           else if (a = CHR ''0'' \<or> a = CHR '' '') \<and> is_digit b \<and> 1 \<le> digit_val b
             then Some (digit_val b)
           else None)
      | [b] \<Rightarrow> (if is_digit b \<and> 1 \<le> digit_val b then Some (digit_val b) else None)
      | _ \<Rightarrow> None)"

definition is_leap :: "int \<Rightarrow> bool" where
  "is_leap y = (y mod 4 = 0 \<and> (y mod 100 \<noteq> 0 \<or> y mod 400 = 0))"

definition days_in_month :: "int \<Rightarrow> int \<Rightarrow> int" where
  "days_in_month y m =
     (if m = 2 then (if is_leap y then 29 else 28)
      else if m = 4 \<or> m = 6 \<or> m = 9 \<or> m = 11 then 30 else 31)"

definition days_before_year :: "int \<Rightarrow> int" where
  "days_before_year y = (y - 1) * 365 + (y - 1) div 4 - (y - 1) div 100 + (y - 1) div 400"

definition days_before_month :: "int \<Rightarrow> int \<Rightarrow> int" where
  "days_before_month y m =
     [0, 31, 59, 90, 120, 151, 181, 212, 243, 273, 304, 334] ! nat (m - 1)
       + (if 2 < m \<and> is_leap y then 1 else 0)"

definition ymd2ord :: "int \<Rightarrow> int \<Rightarrow> int \<Rightarrow> int" where
  "ymd2ord y m d = days_before_year y + days_before_month y m + d"

definition strptime :: "string \<Rightarrow> error + int \<times> int \<times> int" where
  "strptime s =
     (let ms = takeWhile (\<lambda>c. c \<noteq> CHR ''-'') (drop 5 s);
          ds = drop (6 + length ms) s
      in if length s < 6 + length ms \<or> s ! 4 \<noteq> CHR ''-'' then Inl (ValueError ''strptime'')
         else
           (case (parse_year (take 4 s), parse_month ms, parse_day ds) of
              (Some y, Some m, Some d) \<Rightarrow>
                (if 1 \<le> y \<and> d \<le> days_in_month y m then Inr (y, m, d)
                 else Inl (ValueError ''strptime''))
            | _ \<Rightarrow> Inl (ValueError ''strptime'')))"

text \<open>
  \<open>naive_seconds y m d\<close>: the seconds from 1970-01-01 00:00:00 to midnight of the date,
  both read on the same calendar (the ordinal of 1970-01-01 is 719163).
\<close>

definition naive_seconds :: "int \<Rightarrow> int \<Rightarrow> int \<Rightarrow> int" where
  "naive_seconds y m d = (ymd2ord y m d - 719163) * 86400"

definition mktime :: "platform \<Rightarrow> int \<Rightarrow> int" where
  "mktime P l = l - utc_offset P l"

section \<open>The class CryptoData\<close>

definition AVAILABLE_CURRENCY_PAIRS :: "string list" where
  "AVAILABLE_CURRENCY_PAIRS =
    [''BTC_AMP'', ''BTC_ARDR'', ''BTC_BCH'', ''BTC_BCN'', ''BTC_BCY'', ''BTC_BELA'',
     ''BTC_BLK'', ''BTC_BTCD'', ''BTC_BTM'', ''BTC_BTS'', ''BTC_BURST'', ''BTC_CLAM'',
     ''BTC_CVC'', ''BTC_DASH'', ''BTC_DCR'', ''BTC_DGB'', ''BTC_DOGE'', ''BTC_EMC2'',
     ''BTC_ETC'', ''BTC_ETH'', ''BTC_EXP'', ''BTC_FCT'', ''BTC_FLDC'', ''BTC_FLO'', ''BTC_GAME'',
     ''BTC_GAS'', ''BTC_GNO'', ''BTC_GNT'', ''BTC_GRC'', ''BTC_HUC'', ''BTC_LBC'', ''BTC_LSK'',
     ''BTC_LTC'', ''BTC_MAID'', ''BTC_NAV'', ''BTC_NEOS'', ''BTC_NMC'', ''BTC_NXC'', ''BTC_NXT'',
     ''BTC_OMG'', ''BTC_OMNI'', ''BTC_PASC'', ''BTC_PINK'', ''BTC_POT'', ''BTC_PPC'', ''BTC_RADS'',
     ''BTC_SC'', ''BTC_STEEM'', ''BTC_STORJ'', ''BTC_STR'', ''BTC_STRAT'', ''BTC_SYS'',
     ''BTC_VIA'', ''BTC_VRC'', ''BTC_VTC'', ''BTC_XBC'', ''BTC_XCP'', ''BTC_XEM'', ''BTC_XMR'',
     ''BTC_XPM'', ''BTC_XRP'', ''BTC_XVC'', ''BTC_ZEC'', ''BTC_ZRX'', ''ETH_BCH'', ''ETH_CVC'',
     ''ETH_ETC'', ''ETH_GAS'', ''ETH_GNO'', ''ETH_GNT'', ''ETH_LSK'', ''ETH_OMG'', ''ETH_REP'',
     ''ETH_STEEM'', ''ETH_ZEC'', ''ETH_ZRX'', ''USDT_BCH'', ''USDT_BTC'', ''USDT_DASH'',
     ''USDT_ETC'', ''USDT_ETH'', ''USDT_LTC'', ''USDT_NXT'', ''USDT_REP'', ''USDT_STR'',
     ''USDT_XMR'', ''USDT_XRP'', ''USDT_ZEC'', ''XMR_BCN'', ''XMR_BLK'', ''XMR_BTCD'', ''XMR_DASH'',
     ''XMR_LTC'', ''XMR_MAID'', ''XMR_NXT'', ''XMR_ZEC'', ''BTC_REP'', ''BTC_RIC'', ''BTC_SBD'']"

text \<open>
  The fields of an instance. The field \<open>logger\<close> is stored and never read; it is left out.
\<close>

record CryptoData =
  currency_pair :: string
  start_timestamp :: int
  end_timestamp :: int
  period :: int
  api :: string
  destination :: "string option"
  data :: "frame option"
  url :: string

text \<open>
  \<open>get_timestamp\<close> with the date format \<open>%Y-%m-%d\<close>, the only one the program passes. An
  absent date string takes the clock.
\<close>

definition get_timestamp :: "platform \<Rightarrow> string option \<Rightarrow> error + int" where
  "get_timestamp P date_string =
     (case date_string of
        None \<Rightarrow> Inr (mktime P (utcnow P))
      | Some s \<Rightarrow>
          (case strptime s of
             Inl e \<Rightarrow> Inl e
           | Inr (y, m, d) \<Rightarrow> Inr (mktime P (naive_seconds y m d))))"

definition build_url :: "string \<Rightarrow> string \<Rightarrow> int \<Rightarrow> int \<Rightarrow> int \<Rightarrow> string" where
  "build_url a cp st en pe =
     ''https://poloniex.com/public?command='' @ a @ ''&currencyPair='' @ cp
       @ ''&start='' @ str_int st @ ''&end='' @ str_int en @ ''&period='' @ str_int pe"

text \<open>
  \<open>__init__\<close>. The test \<open>not end_date\<close> holds for \<open>None\<close> and for the empty string.
\<close>

definition init :: "platform \<Rightarrow> string \<Rightarrow> string option \<Rightarrow> string option \<Rightarrow> int
    \<Rightarrow> string option \<Rightarrow> string \<Rightarrow> error + CryptoData" where
  "init P currency_pair_arg start_date end_date period_arg destination_arg api_arg =
     (case get_timestamp P start_date of
        Inl e \<Rightarrow> Inl e
      | Inr st \<Rightarrow>
          (case (if end_date = None \<or> end_date = Some [] then Inr 9999999999
                 else get_timestamp P end_date) of
             Inl e \<Rightarrow> Inl e
           | Inr en \<Rightarrow>
               Inr \<lparr> currency_pair = upper currency_pair_arg,
                     start_timestamp = st,
                     end_timestamp = en,
                     period = 300,
                     api = api_arg,
                     destination = destination_arg,
                     data = None,
                     url = build_url api_arg (upper currency_pair_arg) st en 300 \<rparr>))"

text \<open>The default values of the arguments of \<open>__init__\<close>.\<close>

definition init_default :: "platform \<Rightarrow> error + CryptoData" where
  "init_default P =
     init P ''USDT_BTC'' (Some ''2015-01-01'') None 14400 None ''returnChartData''"

text \<open>
  \<open>parse_api_data_text\<close>. The two exceptions it raises are both the builtin \<open>Exception\<close>;
  they differ by their message. A value that is not a string is written into the message
  by \<open>py_str\<close>.
\<close>

definition format_value :: "platform \<Rightarrow> json \<Rightarrow> string" where
  "format_value P v = (case v of JString s \<Rightarrow> s | _ \<Rightarrow> py_str P v)"

definition invalid_pair_message :: "string \<Rightarrow> string" where
  "invalid_pair_message cp =
     cp @ '' is not a valid currency pair. You must use one of: '' @ [CHR 0x0A]
        @ repr_str_list AVAILABLE_CURRENCY_PAIRS"

definition api_error_message :: "platform \<Rightarrow> json \<Rightarrow> string" where
  "api_error_message P v = ''API Error: '' @ format_value P v"

definition parse_api_data_text :: "platform \<Rightarrow> CryptoData \<Rightarrow> string \<Rightarrow> error + json" where
  "parse_api_data_text P self text =
     (case json_loads P text of
        Inl e \<Rightarrow> Inl e
      | Inr parsed_data \<Rightarrow>
          (case parsed_data of
             JObject items \<Rightarrow>
               (case map_of items ''error'' of
                  Some v \<Rightarrow>
                    (if v = JString ''Invalid currency pair.''
                     then Inl (PyException (invalid_pair_message (currency_pair self)))
                     else Inl (PyException (api_error_message P v)))
                | None \<Rightarrow> Inr parsed_data)
           | _ \<Rightarrow> Inr parsed_data))"

section \<open>Tables\<close>

text \<open>
  \<open>pd.DataFrame\<close> of a list of objects: the columns are the keys in the order in which
  they first appear, a row holds the missing-value marker where its object has no such
  key. An empty list gives a table with no column and no row.
\<close>

definition is_object :: "json \<Rightarrow> bool" where
  "is_object v = (case v of JObject _ \<Rightarrow> True | _ \<Rightarrow> False)"

definition items_of :: "json \<Rightarrow> (string \<times> json) list" where
  "items_of v = (case v of JObject items \<Rightarrow> items | _ \<Rightarrow> [])"

definition first_keys :: "(string \<times> json) list list \<Rightarrow> string list" where
  "first_keys recs = rev (remdups (rev (concat (map (map fst) recs))))"

definition lookup_cell :: "(string \<times> cell) list \<Rightarrow> string \<Rightarrow> cell" where
  "lookup_cell r k = (case map_of r k of Some c \<Rightarrow> c | None \<Rightarrow> NaN)"

definition row_of :: "string list \<Rightarrow> (string \<times> json) list \<Rightarrow> (string \<times> cell) list" where
  "row_of cols r = map (\<lambda>k. (k, case map_of r k of Some v \<Rightarrow> Val v | None \<Rightarrow> NaN)) cols"

definition frame_of_records :: "(string \<times> json) list list \<Rightarrow> frame" where
  "frame_of_records recs =
     \<lparr> columns = first_keys recs, rows = map (row_of (first_keys recs)) recs \<rparr>"

definition DataFrame :: "platform \<Rightarrow> json \<Rightarrow> error + frame" where
  "DataFrame P v =
     (case v of
        JArray xs \<Rightarrow>
          (if list_all is_object xs then Inr (frame_of_records (map items_of xs))
           else pd_other P v)
      | _ \<Rightarrow> pd_other P v)"

definition get_column :: "frame \<Rightarrow> string \<Rightarrow> error + cell list" where
  "get_column df k =
     (if k \<in> set (columns df) then Inr (map (\<lambda>r. lookup_cell r k) (rows df))
      else Inl (KeyError k))"

fun set_cell :: "string \<Rightarrow> cell \<Rightarrow> (string \<times> cell) list \<Rightarrow> (string \<times> cell) list" where
  "set_cell k v [] = [(k, v)]"
| "set_cell k v ((k', v') # r) = (if k = k' then (k, v) # r else (k', v') # set_cell k v r)"

definition set_column :: "frame \<Rightarrow> string \<Rightarrow> cell list \<Rightarrow> frame" where
  "set_column df k vs =
     \<lparr> columns = (if k \<in> set (columns df) then columns df else columns df @ [k]),
       rows = map (\<lambda>(r, v). set_cell k v r) (zip (rows df) vs) \<rparr>"

text \<open>
  \<open>datetime.utcfromtimestamp\<close> on an integer: a \<open>datetime\<close> lies between the years 1 and
  9999.
\<close>

definition utcfromtimestamp :: "platform \<Rightarrow> cell \<Rightarrow> error + cell" where
  "utcfromtimestamp P c =
     (case c of
        Val (JInt n) \<Rightarrow>
          (if - 62135596800 \<le> n \<and> n \<le> 253402300799 then Inr (Datetime n)
           else Inl (ValueError ''year is out of range''))
      | _ \<Rightarrow> (case utcfromtimestamp_other P c of Inl e \<Rightarrow> Inl e | Inr t \<Rightarrow> Inr (Datetime t)))"

fun apply_cells :: "(cell \<Rightarrow> error + cell) \<Rightarrow> cell list \<Rightarrow> error + cell list" where
  "apply_cells f [] = Inr []"
| "apply_cells f (c # cs) =
     (case f c of
        Inl e \<Rightarrow> Inl e
      | Inr d \<Rightarrow> (case apply_cells f cs of Inl e \<Rightarrow> Inl e | Inr ds \<Rightarrow> Inr (d # ds)))"

definition datetime_key :: "string \<Rightarrow> (string \<times> cell) list \<Rightarrow> int" where
  "datetime_key k r = (case lookup_cell r k of Datetime t \<Rightarrow> t | _ \<Rightarrow> 0)"

text \<open>
  \<open>sort_values\<close> on a column of datetimes. Rows with equal datetimes are kept in their
  order here; numpy's quicksort does not promise that order.
\<close>

definition sort_values :: "frame \<Rightarrow> string \<Rightarrow> frame" where
  "sort_values df k = df \<lparr> rows := sort_key (datetime_key k) (rows df) \<rparr>"

definition select_columns :: "frame \<Rightarrow> string list \<Rightarrow> error + frame" where
  "select_columns df cols =
     (case filter (\<lambda>k. k \<notin> set (columns df)) cols of
        [] \<Rightarrow> Inr \<lparr> columns = cols, rows = map (\<lambda>r. map (\<lambda>k. (k, lookup_cell r k)) cols) (rows df) \<rparr>
      | k # _ \<Rightarrow> Inl (KeyError k))"

definition cols :: "string list" where
  "cols = [''datetime_utc'', ''open'', ''high'', ''low'', ''close'', ''quoteVolume'', ''volume'',
           ''weightedAverage'']"

definition build_dataframe :: "platform \<Rightarrow> CryptoData \<Rightarrow> json \<Rightarrow> error + CryptoData" where
  "build_dataframe P self parsed_data =
     (case DataFrame P parsed_data of
        Inl e \<Rightarrow> Inl e
      | Inr d0 \<Rightarrow>
          (case get_column d0 ''date'' of
             Inl e \<Rightarrow> Inl e
           | Inr dates \<Rightarrow>
               (case apply_cells (utcfromtimestamp P) dates of
                  Inl e \<Rightarrow> Inl e
                | Inr dts \<Rightarrow>
                    (let d1 = set_column d0 ''datetime'' dts;
                         d2 = sort_values d1 ''datetime''
                     in case get_column d2 ''datetime'' of
                          Inl e \<Rightarrow> Inl e
                        | Inr sorted_dts \<Rightarrow>
                            (case select_columns (set_column d2 ''datetime_utc'' sorted_dts) cols of
                               Inl e \<Rightarrow> Inl e
                             | Inr d3 \<Rightarrow> Inr (self \<lparr> data := Some d3 \<rparr>))))))"

section \<open>The network, the disk and the pipeline\<close>

text \<open>
  What the process has done to the outside: the requests it sent, the files it tried to
  open for writing, the content of the files, and the delays it slept, in milliseconds.
\<close>

record world =
  requests_sent :: nat
  writes_tried :: nat
  files :: "string \<Rightarrow> string option"
  slept :: "nat list"

definition get_api_data :: "platform \<Rightarrow> CryptoData \<Rightarrow> world \<Rightarrow> (error + string) \<times> world" where
  "get_api_data P self w =
     (http_get P (url self) (requests_sent w), w \<lparr> requests_sent := Suc (requests_sent w) \<rparr>)"

text \<open>
  \<open>save_data\<close>: \<open>to_csv\<close> with a path opens the file for writing, which empties it, and
  writes the text; with \<open>None\<close> it returns the text, which \<open>save_data\<close> drops. A write
  that fails is one whose file cannot be opened.
\<close>

definition save_data :: "platform \<Rightarrow> CryptoData \<Rightarrow> frame \<Rightarrow> world \<Rightarrow> (error + unit) \<times> world" where
  "save_data P self dataframe w =
     (case destination self of
        None \<Rightarrow> (Inr (), w)
      | Some path \<Rightarrow>
          (if open_write P path (writes_tried w)
           then (Inr (), w \<lparr> writes_tried := Suc (writes_tried w),
                              files := (files w)(path \<mapsto> to_csv_text P dataframe) \<rparr>)
           else (Inl OSError, w \<lparr> writes_tried := Suc (writes_tried w) \<rparr>)))"

datatype run_result = Self | Data frame

text \<open>
  The body of \<open>run\<close>, one attempt. It returns the instance and the world as it leaves
  them. \<open>finish\<close> is the part after the test of \<open>self.data\<close>. The last case of
  \<open>run_body\<close>, in which \<open>self.data\<close> is still \<open>None\<close> after \<open>build_dataframe\<close> has
  returned, is given an exception here (Python would call \<open>to_csv\<close> on \<open>None\<close>); it
  does not occur, since \<open>build_dataframe\<close> stores a table whenever it returns.
\<close>

definition finish :: "platform \<Rightarrow> bool \<Rightarrow> CryptoData \<Rightarrow> frame \<Rightarrow> world
    \<Rightarrow> (error + run_result) \<times> CryptoData \<times> world" where
  "finish P save self df w =
     (if save
      then (case save_data P self df w of
              (Inl e, w') \<Rightarrow> (Inl e, self, w')
            | (Inr _, w') \<Rightarrow> (Inr Self, self, w'))
      else (Inr (Data df), self, w))"

definition run_body :: "platform \<Rightarrow> bool \<Rightarrow> CryptoData \<times> world
    \<Rightarrow> (error + run_result) \<times> CryptoData \<times> world" where
  "run_body P save sw =
     (case sw of (self, w) \<Rightarrow>
       (case data self of
          Some df \<Rightarrow> finish P save self df w
        | None \<Rightarrow>
            (case get_api_data P self w of
               (Inl e, w') \<Rightarrow> (Inl e, self, w')
             | (Inr text, w') \<Rightarrow>
                 (case parse_api_data_text P self text of
                    Inl e \<Rightarrow> (Inl e, self, w')
                  | Inr parsed \<Rightarrow>
                      (case build_dataframe P self parsed of
                         Inl e \<Rightarrow> (Inl e, self, w')
                       | Inr self' \<Rightarrow>
                           (case data self' of
                              Some df \<Rightarrow> finish P save self' df w'
                            | None \<Rightarrow> (Inl AttributeError, self', w')))))))"

section \<open>The retry decorator\<close>

text \<open>
  Modelled from the spec: the decorator \<open>retry\<close> of the package \<open>retrying\<close>, which is not
  in the repository. \<open>run\<close> is decorated with
  \<open>retry(stop_max_attempt_number=7, wait_random_min=1000, wait_random_max=2000)\<close>: an
  attempt that raises is followed by another one, after a sleep of a random whole number of
  milliseconds between the two bounds, until the attempt with the number
  \<open>stop_max_attempt_number\<close> has raised; then its exception is raised to the caller.
\<close>

definition stop_max_attempt_number :: nat where
  "stop_max_attempt_number = 7"

definition wait_random_min :: nat where
  "wait_random_min = 1000"

definition wait_random_max :: nat where
  "wait_random_max = 2000"

definition random_sleep :: "platform \<Rightarrow> world \<Rightarrow> world" where
  "random_sleep P w =
     w \<lparr> slept := slept w @
           [wait_random_min
              + random_draw P (length (slept w)) mod (wait_random_max - wait_random_min + 1)] \<rparr>"

function retry_call :: "platform \<Rightarrow> (CryptoData \<times> world \<Rightarrow> (error + 'a) \<times> CryptoData \<times> world)
    \<Rightarrow> nat \<Rightarrow> CryptoData \<times> world \<Rightarrow> (error + 'a) \<times> CryptoData \<times> world" where
  "retry_call P f attempt_number sw =
     (case f sw of
        (Inr v, self', w') \<Rightarrow> (Inr v, self', w')
      | (Inl e, self', w') \<Rightarrow>
          (if stop_max_attempt_number \<le> attempt_number then (Inl e, self', w')
           else retry_call P f (Suc attempt_number) (self', random_sleep P w')))"
  by pat_completeness auto
termination
  by (relation "measure (\<lambda>(P, f, n, sw). stop_max_attempt_number - n)") auto

declare retry_call.simps [simp del]

definition run :: "platform \<Rightarrow> bool \<Rightarrow> CryptoData \<times> world
    \<Rightarrow> (error + run_result) \<times> CryptoData \<times> world" where
  "run P save sw = retry_call P (run_body P save) 1 sw"

text \<open>
  \<open>attempt_state P f k sw\<close>: the instance and the world in which the attempt with the
  number \<open>k + 1\<close> starts, when all the attempts before it have raised.
\<close>

fun attempt_state :: "platform \<Rightarrow> (CryptoData \<times> world \<Rightarrow> (error + 'a) \<times> CryptoData \<times> world)
    \<Rightarrow> nat \<Rightarrow> CryptoData \<times> world \<Rightarrow> CryptoData \<times> world" where
  "attempt_state P f 0 sw = sw"
| "attempt_state P f (Suc k) sw =
     (case f (attempt_state P f k sw) of (r, self', w') \<Rightarrow> (self', random_sleep P w'))"

text \<open>
  What one attempt of \<open>run\<close> leaves behind, apart from the requests it sent: \<open>self\<close> and
  \<open>w\<close> before the attempt, the result \<open>r\<close>, and \<open>self'\<close> and \<open>w'\<close> after it.
\<close>

definition attempt_facts :: "platform \<Rightarrow> bool \<Rightarrow> CryptoData \<Rightarrow> world
    \<Rightarrow> (error + run_result) \<Rightarrow> CryptoData \<Rightarrow> world \<Rightarrow> bool" where
  "attempt_facts P save self w r self' w' \<longleftrightarrow>
     (data self' = None \<longrightarrow> isl r \<and> self' = self \<and> files w' = files w
        \<and> writes_tried w' = writes_tried w)
   \<and> (data self' \<noteq> None \<and> isl r \<longrightarrow> save \<and> destination self' \<noteq> None \<and> files w' = files w
        \<and> writes_tried w' = Suc (writes_tried w))
   \<and> (\<forall>path df. save \<and> destination self' = Some path \<and> data self' = Some df \<and> r = Inr Self
        \<longrightarrow> files w' = (files w)(path \<mapsto> to_csv_text P df))
   \<and> destination self' = destination self
   \<and> (destination self = None \<longrightarrow> files w' = files w \<and> writes_tried w' = writes_tried w
        \<and> (\<forall>d. data self' = Some d \<longrightarrow> r = (if save then Inr Self else Inr (Data d))))"

section \<open>Candles\<close>

text \<open>
  A record of the API answer as the program needs it: an object with an integer \<open>date\<close>
  that \<open>utcfromtimestamp\<close> accepts, and with the seven other keys. \<open>candle_row\<close> is the row
  of the resulting table that belongs to such a record.
\<close>

definition date_of :: "(string \<times> json) list \<Rightarrow> int option" where
  "date_of r = (case map_of r ''date'' of Some (JInt n) \<Rightarrow> Some n | _ \<Rightarrow> None)"

definition is_raw_candle :: "(string \<times> json) list \<Rightarrow> bool" where
  "is_raw_candle r =
     ((case date_of r of Some n \<Rightarrow> - 62135596800 \<le> n \<and> n \<le> 253402300799 | None \<Rightarrow> False)
      \<and> list_all (\<lambda>k. map_of r k \<noteq> None) (tl cols))"

definition candle_row :: "(string \<times> json) list \<Rightarrow> (string \<times> cell) list" where
  "candle_row r =
     (''datetime_utc'', case date_of r of Some n \<Rightarrow> Datetime n | None \<Rightarrow> NaN) # row_of (tl cols) r"

text \<open>
  The rows on the way through \<open>build_dataframe\<close>: with the column \<open>datetime\<close> set, and
  cut down to the columns of the result.
\<close>

definition date_cell :: "(string \<times> json) list \<Rightarrow> cell" where
  "date_cell r = (case date_of r of Some n \<Rightarrow> Datetime n | None \<Rightarrow> NaN)"

definition with_datetime :: "string list \<Rightarrow> (string \<times> json) list \<Rightarrow> (string \<times> cell) list" where
  "with_datetime K r = set_cell ''datetime'' (date_cell r) (row_of K r)"

definition project_row :: "(string \<times> cell) list \<Rightarrow> (string \<times> cell) list" where
  "project_row r =
     map (\<lambda>k. (k, lookup_cell (set_cell ''datetime_utc'' (lookup_cell r ''datetime'') r) k)) cols"

section \<open>Sample platforms and inputs\<close>

definition quoted :: "string \<Rightarrow> string" where
  "quoted s = CHR 0x22 # s @ [CHR 0x22]"

definition candle_late :: "(string \<times> json) list" where
  "candle_late =
     [(''date'', JInt 1405713600), (''high'', JInt 4), (''low'', JInt 1), (''open'', JInt 2),
      (''close'', JInt 3), (''volume'', JInt 10), (''quoteVolume'', JInt 20),
      (''weightedAverage'', JInt 3)]"

definition candle_early :: "(string \<times> json) list" where
  "candle_early =
     [(''date'', JInt 1405699200), (''high'', JInt 8), (''low'', JInt 5), (''open'', JInt 6),
      (''close'', JInt 7), (''volume'', JInt 30), (''quoteVolume'', JInt 40),
      (''weightedAverage'', JInt 6)]"

definition sample_parsed :: json where
  "sample_parsed = JArray [JObject candle_late, JObject candle_early]"

fun json_text :: "json \<Rightarrow> string" where
  "json_text (JInt n) = str_int n"
| "json_text (JString s) = quoted s"
| "json_text (JArray xs) = ''['' @ join '','' (map json_text xs) @ '']''"
| "json_text (JObject items) =
     ''{'' @ join '','' (map (\<lambda>(k, v). quoted k @ '':'' @ json_text v) items) @ ''}''"
| "json_text _ = ''null''"

definition sample_text :: string where
  "sample_text = json_text sample_parsed"

definition invalid_pair_object :: json where
  "invalid_pair_object = JObject [(''error'', JString ''Invalid currency pair.'')]"

definition other_error_object :: json where
  "other_error_object = JObject [(''error'', JString ''something else'')]"

definition cell_text :: "cell \<Rightarrow> string" where
  "cell_text c = (case c of Val (JInt n) \<Rightarrow> str_int n | Datetime t \<Rightarrow> str_int t | _ \<Rightarrow> [])"

definition W0 :: platform where
  "W0 =
     \<lparr> utc_offset = (\<lambda>l. 0),
       utcnow = 1500000000,
       http_get = (\<lambda>u n. Inr ''candles''),
       json_loads = (\<lambda>t. if t = ''candles'' then Inr sample_parsed
                          else if t = ''invalid pair'' then Inr invalid_pair_object
                          else if t = ''other error'' then Inr other_error_object
                          else Inl JSONDecodeError),
       py_str = (\<lambda>v. json_text v),
       pd_other = (\<lambda>v. Inl (ValueError ''DataFrame'')),
       utcfromtimestamp_other = (\<lambda>c. Inl (ValueError ''timestamp'')),
       to_csv_text = (\<lambda>df. join [CHR 0x0A]
                         (join '','' (columns df) # map (\<lambda>r. join '','' (map (\<lambda>kv. cell_text (snd kv)) r)) (rows df))),
       open_write = (\<lambda>path n. True),
       random_draw = (\<lambda>k. 1234 * (k + 1)) \<rparr>"

text \<open>
  A machine in UTC, whose network answers every request with the two sample candles, the
  later one first. The texts of the answers are abbreviated: \<open>json_loads W0\<close> reads
  \<open>''candles''\<close> as the array of the two candles.
\<close>

definition W_tokyo :: platform where
  "W_tokyo = W0 \<lparr> utc_offset := (\<lambda>l. 32400) \<rparr>"

definition W_down :: platform where
  "W_down = W0 \<lparr> http_get := (\<lambda>u n. Inl RequestException) \<rparr>"

definition W_flaky :: platform where
  "W_flaky = W0 \<lparr> http_get := (\<lambda>u n. if n < 6 then Inl RequestException else Inr ''candles'') \<rparr>"

definition W_disk :: platform where
  "W_disk = W0 \<lparr> open_write := (\<lambda>path n. 0 < n) \<rparr>"

definition self0 :: CryptoData where
  "self0 =
     \<lparr> currency_pair = ''USDT_BTC'',
       start_timestamp = 1420070400,
       end_timestamp = 9999999999,
       period = 300,
       api = ''returnChartData'',
       destination = None,
       data = None,
       url = ''https://poloniex.com/public?command=returnChartData&currencyPair=USDT_BTC&start=1420070400&end=9999999999&period=300'' \<rparr>"

definition self_out :: CryptoData where
  "self_out = self0 \<lparr> destination := Some ''out.csv'' \<rparr>"

definition sample_frame :: frame where
  "sample_frame = \<lparr> columns = cols, rows = [candle_row candle_early, candle_row candle_late] \<rparr>"

definition w0 :: world where
  "w0 = \<lparr> requests_sent = 0, writes_tried = 0, files = (\<lambda>path. None), slept = [] \<rparr>"

section \<open>Evaluation of the samples\<close>

lemmas date_defs = get_timestamp_def strptime_def parse_year_def parse_month_def parse_day_def
  is_digit_def digit_val_def days_in_month_def is_leap_def naive_seconds_def ymd2ord_def
  days_before_year_def days_before_month_def mktime_def

lemmas frame_defs = build_dataframe_def DataFrame_def is_object_def items_of_def
  frame_of_records_def first_keys_def row_of_def get_column_def lookup_cell_def
  utcfromtimestamp_def set_column_def sort_values_def datetime_key_def select_columns_def cols_def

lemma str_int_300: "str_int 300 = ''300''"
  by (simp add: str_int_def str_nat.simps digit_char_def)

lemma str_int_samples:
  "str_int 9999999999 = ''9999999999''" "str_int 1420070400 = ''1420070400''"
  by (simp_all add: str_int_def str_nat.simps digit_char_def)

lemma upper_sample: "upper ''usdt_btc'' = ''USDT_BTC''"
  by code_simp

lemma get_timestamp_sample: "get_timestamp W0 (Some ''2015-01-01'') = Inr 1420070400"
  by (simp add: date_defs W0_def)

lemma get_timestamp_sample_end: "get_timestamp W0 (Some ''2015-02-01'') = Inr 1422748800"
  by (simp add: date_defs W0_def)

lemma init_sample:
  "init W0 ''usdt_btc'' (Some ''2015-01-01'') None 86400 None ''returnChartData'' = Inr self0"
  by (simp add: init_def get_timestamp_sample upper_sample self0_def build_url_def
      str_int_300 str_int_samples)

section \<open>The constructor\<close>

lemma build_url_period: "\<exists>pre. build_url a b st en 300 = pre @ ''&period=300''"
proof
  show "build_url a b st en 300 =
      (''https://poloniex.com/public?command='' @ a @ ''&currencyPair='' @ b
        @ ''&start='' @ str_int st @ ''&end='' @ str_int en) @ ''&period=300''"
    by (simp add: build_url_def str_int_300)
qed

text \<open>
  Claim C2. Whatever period the caller passes, \<open>__init__\<close> builds the same instance: its
  field \<open>period\<close> is 300, and the URL is built with 300 and ends with \<open>&period=300\<close>.
\<close>

theorem period_hard_coded:
  "init P cp sd ed p dest a = init P cp sd ed p' dest a \<and>
   (init P cp sd ed p dest a = Inr c \<longrightarrow>
      period c = 300 \<and>
      url c = build_url a (upper cp) (start_timestamp c) (end_timestamp c) 300 \<and>
      (\<exists>pre. url c = pre @ ''&period=300''))"
proof (intro conjI impI)
  show "init P cp sd ed p dest a = init P cp sd ed p' dest a"
    by (simp add: init_def)
next
  assume h: "init P cp sd ed p dest a = Inr c"
  then show "period c = 300"
    by (auto simp: init_def split: sum.splits if_splits)
  from h show u: "url c = build_url a (upper cp) (start_timestamp c) (end_timestamp c) 300"
    by (auto simp: init_def split: sum.splits if_splits)
  show "\<exists>pre. url c = pre @ ''&period=300''"
    unfolding u by (rule build_url_period)
qed

theorem period_hard_coded_witness:
  "init W0 ''usdt_btc'' (Some ''2015-01-01'') None 86400 None ''returnChartData'' = Inr self0
   \<and> period self0 = 300
   \<and> init W0 ''usdt_btc'' (Some ''2015-01-01'') None 86400 None ''returnChartData''
     = init W0 ''usdt_btc'' (Some ''2015-01-01'') None 900 None ''returnChartData''"
proof -
  note t = period_hard_coded [of W0 "''usdt_btc''" "Some ''2015-01-01''" None 86400 None
      "''returnChartData''" 900 self0]
  from t init_sample show ?thesis by simp
qed

text \<open>
  Claim C6, at the input where the code departs from it. On a machine nine hours east of
  UTC the start date 1970-01-02 becomes the timestamp 54000, which is midnight of that
  date in local time; midnight UTC of that date is 86400, which the same call gives on a
  machine in UTC.
\<close>

theorem start_timestamp_local_time:
  "map_sum id start_timestamp
     (init W_tokyo ''USDT_BTC'' (Some ''1970-01-02'') None 14400 None ''returnChartData'') = Inr 54000
   \<and> map_sum id start_timestamp
     (init W0 ''USDT_BTC'' (Some ''1970-01-02'') None 14400 None ''returnChartData'') = Inr 86400"
  by (simp add: init_def date_defs W_tokyo_def W0_def)

text \<open>
  Claim C7. When the start date converts, the constructor returns an instance: without
  an end date its end timestamp is the constant 9999999999, which does not read the clock;
  with an end date that converts, its end timestamp is the timestamp of that date.
\<close>

theorem end_timestamp_unbounded_or_converted:
  "get_timestamp P sd = Inr st \<Longrightarrow>
     (\<exists>c. init P cp sd None p dest a = Inr c \<and> end_timestamp c = 9999999999) \<and>
     (\<forall>d e. d \<noteq> [] \<longrightarrow> get_timestamp P (Some d) = Inr e \<longrightarrow>
        (\<exists>c. init P cp sd (Some d) p dest a = Inr c \<and> end_timestamp c = e))"
  by (simp add: init_def)

theorem end_timestamp_witness:
  "(\<exists>c. init W0 ''usdt_btc'' (Some ''2015-01-01'') None 300 None ''x'' = Inr c
        \<and> end_timestamp c = 9999999999) \<and>
   (\<exists>c. init W0 ''usdt_btc'' (Some ''2015-01-01'') (Some ''2015-02-01'') 300 None ''x'' = Inr c
        \<and> end_timestamp c = 1422748800)"
  using end_timestamp_unbounded_or_converted [OF get_timestamp_sample, of "''usdt_btc''" 300 None "''x''"]
    get_timestamp_sample_end
  by simp

section \<open>The table\<close>

text \<open>
  Claim C9. An empty array gives a table with no column, and \<open>build_dataframe\<close> raises
  \<open>KeyError\<close> when it reads the column \<open>date\<close>.
\<close>

theorem empty_answer_raises:
  "DataFrame P (JArray []) = Inr \<lparr> columns = [], rows = [] \<rparr> \<and>
   build_dataframe P self (JArray []) = Inl (KeyError ''date'')"
  by (simp add: frame_defs)

lemma set_first_keys: "set (first_keys recs) = (\<Union>r \<in> set recs. fst ` set r)"
  by (auto simp: first_keys_def)

lemma map_of_tabulate:
  "map_of (map (\<lambda>k. (k, g k)) K) k = (if k \<in> set K then Some (g k) else None)"
  by (induction K) auto

lemma lookup_row_of:
  "k \<in> set K \<Longrightarrow> lookup_cell (row_of K r) k = (case map_of r k of Some v \<Rightarrow> Val v | None \<Rightarrow> NaN)"
  by (simp add: lookup_cell_def row_of_def map_of_tabulate)

lemma lookup_set_cell:
  "lookup_cell (set_cell k v r) k' = (if k' = k then v else lookup_cell r k')"
  by (induction r) (auto simp: lookup_cell_def)

lemma zip_with_image: "map (\<lambda>(r, v). h r v) (zip xs (map g xs)) = map (\<lambda>r. h r (g r)) xs"
  by (induction xs) auto

lemma raw_candle_date:
  assumes "is_raw_candle r" "''date'' \<in> set K"
  shows "utcfromtimestamp P (lookup_cell (row_of K r) ''date'') = Inr (date_cell r)"
proof -
  from assms(1) obtain n where n: "date_of r = Some n" "- 62135596800 \<le> n" "n \<le> 253402300799"
    by (auto simp: is_raw_candle_def split: option.splits)
  then have "map_of r ''date'' = Some (JInt n)"
    by (auto simp: date_of_def split: option.splits json.splits)
  with n assms(2) show ?thesis
    by (simp add: lookup_row_of utcfromtimestamp_def date_cell_def)
qed

lemma apply_raw_candles:
  "list_all is_raw_candle recs \<Longrightarrow> ''date'' \<in> set K \<Longrightarrow>
   apply_cells (utcfromtimestamp P) (map (\<lambda>r. lookup_cell (row_of K r) ''date'') recs)
     = Inr (map date_cell recs)"
  by (induction recs) (simp_all add: raw_candle_date)

lemma raw_candle_keys:
  assumes "is_raw_candle r"
  shows "''date'' \<in> fst ` set r" and "set (tl cols) \<subseteq> fst ` set r"
proof -
  from assms obtain n where "date_of r = Some n"
    by (auto simp: is_raw_candle_def split: option.splits)
  then have "map_of r ''date'' \<noteq> None"
    by (auto simp: date_of_def split: option.splits)
  then show "''date'' \<in> fst ` set r"
    by (simp add: map_of_eq_None_iff)
  from assms have "\<forall>k \<in> set (tl cols). map_of r k \<noteq> None"
    by (simp add: is_raw_candle_def list_all_iff)
  then show "set (tl cols) \<subseteq> fst ` set r"
    by (auto simp: map_of_eq_None_iff)
qed

lemma tl_cols_plain: "k \<in> set (tl cols) \<Longrightarrow> k \<noteq> ''datetime'' \<and> k \<noteq> ''datetime_utc''"
  by (auto simp: cols_def)

lemma project_with_datetime:
  assumes "set (tl cols) \<subseteq> set K"
  shows "project_row (with_datetime K r) = candle_row r"
proof -
  have hd: "cols = ''datetime_utc'' # tl cols"
    by (simp add: cols_def)
  have "map (\<lambda>k. (k, lookup_cell (set_cell ''datetime_utc'' (date_cell r) (with_datetime K r)) k)) (tl cols)
      = row_of (tl cols) r"
    unfolding row_of_def
  proof (rule map_cong [OF refl])
    fix k assume k: "k \<in> set (tl cols)"
    with assms have "k \<in> set K" by auto
    with tl_cols_plain [OF k]
    show "(k, lookup_cell (set_cell ''datetime_utc'' (date_cell r) (with_datetime K r)) k)
        = (k, case map_of r k of Some v \<Rightarrow> Val v | None \<Rightarrow> NaN)"
      by (simp add: lookup_set_cell with_datetime_def lookup_row_of)
  qed
  moreover have "lookup_cell (with_datetime K r) ''datetime'' = date_cell r"
    by (simp add: with_datetime_def lookup_set_cell)
  ultimately show ?thesis
    unfolding project_row_def candle_row_def
    by (subst hd) (simp add: lookup_set_cell date_cell_def)
qed

lemma key_project_row:
  "datetime_key ''datetime_utc'' (project_row r) = datetime_key ''datetime'' r"
proof -
  have "lookup_cell (project_row r) ''datetime_utc'' = lookup_cell r ''datetime''"
    by (simp add: project_row_def cols_def lookup_cell_def lookup_set_cell [unfolded lookup_cell_def])
  then show ?thesis
    by (simp add: datetime_key_def)
qed


lemma DataFrame_objects:
  "DataFrame P (JArray (map JObject recs)) = Inr (frame_of_records recs)"
proof -
  have "list_all is_object (map JObject recs)"
    by (simp add: list_all_iff is_object_def)
  moreover have "map items_of (map JObject recs) = recs"
    by (simp add: items_of_def map_idI)
  ultimately show ?thesis
    by (simp add: DataFrame_def)
qed

lemma select_all_present:
  "set ks \<subseteq> set (columns df) \<Longrightarrow>
   select_columns df ks = Inr \<lparr> columns = ks, rows = map (\<lambda>r. map (\<lambda>k. (k, lookup_cell r k)) ks) (rows df) \<rparr>"
proof -
  assume "set ks \<subseteq> set (columns df)"
  then have "filter (\<lambda>k. k \<notin> set (columns df)) ks = []"
    by (auto simp: filter_empty_conv)
  then show ?thesis
    by (simp add: select_columns_def)
qed

lemma build_dataframe_raw:
  assumes ne: "recs \<noteq> []" and raw: "list_all is_raw_candle recs"
  shows "build_dataframe P self (JArray (map JObject recs)) =
     Inr (self \<lparr> data := Some \<lparr> columns = cols,
        rows = map project_row
          (sort_key (datetime_key ''datetime'') (map (with_datetime (first_keys recs)) recs)) \<rparr> \<rparr>)"
proof -
  define K where "K = first_keys recs"
  define S where "S = sort_key (datetime_key ''datetime'') (map (with_datetime K) recs)"
  from ne obtain r0 where r0: "r0 \<in> set recs" by (cases recs) auto
  with raw have "is_raw_candle r0" by (simp add: list_all_iff)
  from raw_candle_keys [OF this] r0
  have date_in: "''date'' \<in> set K" and keys_in: "set (tl cols) \<subseteq> set K"
    unfolding K_def set_first_keys by blast+
  define d0 where "d0 = frame_of_records recs"
  have d0: "columns d0 = K" "rows d0 = map (row_of K) recs"
    by (simp_all add: d0_def frame_of_records_def K_def)
  have dates: "get_column d0 ''date'' = Inr (map (\<lambda>r. lookup_cell (row_of K r) ''date'') recs)"
    using date_in by (simp add: get_column_def d0 comp_def)
  have dts: "apply_cells (utcfromtimestamp P) (map (\<lambda>r. lookup_cell (row_of K r) ''date'') recs)
      = Inr (map date_cell recs)"
    by (rule apply_raw_candles [OF raw date_in])
  define d1 where "d1 = set_column d0 ''datetime'' (map date_cell recs)"
  have d1_rows: "rows d1 = map (with_datetime K) recs"
    by (simp add: d1_def set_column_def d0 zip_map_map with_datetime_def
        zip_with_image [where g = "\<lambda>r. r", simplified] zip_same_conv_map)
  have d1_cols: "set (columns d1) = insert ''datetime'' (set K)"
    by (auto simp: d1_def set_column_def d0)
  define d2 where "d2 = sort_values d1 ''datetime''"
  have d2_rows: "rows d2 = S" and d2_cols: "columns d2 = columns d1"
    by (simp_all add: d2_def sort_values_def d1_rows S_def)
  have sorted_dts: "get_column d2 ''datetime'' = Inr (map (\<lambda>r. lookup_cell r ''datetime'') S)"
    by (simp add: get_column_def d2_cols d1_cols d2_rows)
  define d3 where "d3 = set_column d2 ''datetime_utc'' (map (\<lambda>r. lookup_cell r ''datetime'') S)"
  have d3_rows: "rows d3 = map (\<lambda>r. set_cell ''datetime_utc'' (lookup_cell r ''datetime'') r) S"
    by (simp add: d3_def set_column_def d2_rows zip_with_image)
  have "set (columns d3) = insert ''datetime_utc'' (insert ''datetime'' (set K))"
    by (auto simp: d3_def set_column_def d2_cols d1_cols)
  with keys_in have "set cols \<subseteq> set (columns d3)"
    by (auto simp: cols_def)
  from select_all_present [OF this]
  have sel: "select_columns d3 cols = Inr \<lparr> columns = cols, rows = map project_row S \<rparr>"
    by (simp add: d3_rows project_row_def comp_def)
  have "build_dataframe P self (JArray (map JObject recs)) =
     Inr (self \<lparr> data := Some \<lparr> columns = cols, rows = map project_row S \<rparr> \<rparr>)"
    unfolding build_dataframe_def DataFrame_objects
    by (simp add: d0_def [symmetric] dates dts d1_def [symmetric] d2_def [symmetric]
        sorted_dts d3_def [symmetric] sel Let_def)
  then show ?thesis
    by (simp add: S_def K_def)
qed

text \<open>
  Claim C4, amended. For every sequence of records that is not empty and whose records
  are raw candles, \<open>build_dataframe\<close> stores a table with the columns \<open>cols\<close>, in that
  order, whose rows are the rows of the records in some order, and are sorted by the
  datetime of their column \<open>datetime_utc\<close>, smallest first.
\<close>

theorem build_dataframe_sorted:
  assumes "recs \<noteq> []" and "list_all is_raw_candle recs"
  shows "\<exists>R. build_dataframe P self (JArray (map JObject recs))
             = Inr (self \<lparr> data := Some \<lparr> columns = cols, rows = R \<rparr> \<rparr>)
           \<and> sorted (map (datetime_key ''datetime_utc'') R)
           \<and> mset R = mset (map candle_row recs)"
proof -
  define K where "K = first_keys recs"
  define S where "S = sort_key (datetime_key ''datetime'') (map (with_datetime K) recs)"
  from assms obtain r0 where "r0 \<in> set recs" "is_raw_candle r0"
    by (cases recs) auto
  then have keys_in: "set (tl cols) \<subseteq> set K"
    unfolding K_def set_first_keys using raw_candle_keys(2) by blast
  have eq: "map (datetime_key ''datetime_utc'') (map project_row S) = map (datetime_key ''datetime'') S"
    by (simp add: key_project_row)
  have "sorted (map (datetime_key ''datetime'') S)"
    unfolding S_def by (rule sorted_sort_key)
  then have "sorted (map (datetime_key ''datetime_utc'') (map project_row S))"
    unfolding eq .
  moreover have "mset (map project_row S) = mset (map candle_row recs)"
  proof -
    have "mset (map project_row S) = image_mset project_row (mset (map (with_datetime K) recs))"
      by (simp add: S_def)
    also have "\<dots> = mset (map (\<lambda>r. project_row (with_datetime K r)) recs)"
      by (simp add: multiset.map_comp comp_def)
    also have "\<dots> = mset (map candle_row recs)"
      by (simp add: project_with_datetime [OF keys_in])
    finally show ?thesis .
  qed
  ultimately show ?thesis
    using build_dataframe_raw [OF assms, of P self] by (auto simp: S_def K_def)
qed


lemma sample_raw: "list_all is_raw_candle [candle_late, candle_early]"
  by (simp add: is_raw_candle_def date_of_def candle_late_def candle_early_def cols_def)

theorem build_dataframe_sorted_witness:
  "[candle_late, candle_early] \<noteq> [] \<and> list_all is_raw_candle [candle_late, candle_early] \<and>
   (\<exists>R. build_dataframe W0 self0 sample_parsed
             = Inr (self0 \<lparr> data := Some \<lparr> columns = cols, rows = R \<rparr> \<rparr>)
           \<and> sorted (map (datetime_key ''datetime_utc'') R)
           \<and> mset R = mset (map candle_row [candle_late, candle_early]))"
proof -
  have ne: "[candle_late, candle_early] \<noteq> []" by simp
  from build_dataframe_sorted [OF ne sample_raw, of W0 self0] ne sample_raw
  show ?thesis by (simp add: sample_parsed_def)
qed

text \<open>
  Claim C4 as stated fails for the empty sequence of records: \<open>build_dataframe\<close> raises
  and stores no table.
\<close>

theorem build_dataframe_empty_counterexample:
  "build_dataframe W0 self0 (JArray (map JObject [])) = Inl (KeyError ''date'')"
  by (simp add: build_dataframe_def DataFrame_def frame_of_records_def first_keys_def get_column_def)

lemma build_dataframe_data:
  "build_dataframe P s j = Inr s' \<Longrightarrow> \<exists>d. s' = s \<lparr> data := Some d \<rparr>"
  by (auto simp: build_dataframe_def Let_def split: sum.splits)

lemma build_dataframe_any_instance:
  "map_sum id data (build_dataframe P s2 j) = map_sum id data (build_dataframe P s1 j)"
  by (simp add: build_dataframe_def Let_def split: sum.splits)

text \<open>
  Claim C8. The table that \<open>build_dataframe\<close> computes, or the exception it raises,
  depends on the parsed answer only, not on the instance; and calling it again on the
  instance it has left, with the same answer, leaves the same instance.
\<close>

theorem build_dataframe_repeatable:
  "map_sum id data (build_dataframe P s2 j) = map_sum id data (build_dataframe P s1 j) \<and>
   (build_dataframe P s1 j = Inr s1' \<longrightarrow> build_dataframe P s1' j = Inr s1')"
proof (intro conjI impI)
  show "map_sum id data (build_dataframe P s2 j) = map_sum id data (build_dataframe P s1 j)"
    by (rule build_dataframe_any_instance)
next
  assume h: "build_dataframe P s1 j = Inr s1'"
  then obtain d where d: "s1' = s1 \<lparr> data := Some d \<rparr>"
    using build_dataframe_data by blast
  from h show "build_dataframe P s1' j = Inr s1'"
    unfolding d by (auto simp: build_dataframe_def Let_def split: sum.splits)
qed

lemma build_sample:
  "build_dataframe W0 self0 sample_parsed = Inr (self0 \<lparr> data := Some sample_frame \<rparr>)"
  by (simp add: frame_defs sample_parsed_def candle_late_def candle_early_def sample_frame_def
      candle_row_def date_of_def)

theorem build_dataframe_repeatable_witness:
  "build_dataframe W0 self0 sample_parsed = Inr (self0 \<lparr> data := Some sample_frame \<rparr>) \<and>
   build_dataframe W0 (self0 \<lparr> data := Some sample_frame \<rparr>) sample_parsed
     = Inr (self0 \<lparr> data := Some sample_frame \<rparr>)"
  using build_dataframe_repeatable [of W0 self0 sample_parsed self0
      "self0 \<lparr> data := Some sample_frame \<rparr>"] build_sample
  by simp

lemma join_contains:
  "p \<in> set xs \<Longrightarrow> \<exists>pre post. join sep (map f xs) = pre @ f p @ post"
proof (induction xs rule: induct_list012)
  case 1
  then show ?case by simp
next
  case (2 x)
  then have "join sep (map f [x]) = [] @ f p @ []" by simp
  then show ?case by blast
next
  case (3 x y ys)
  show ?case
  proof (cases "p = x")
    case True
    then have "join sep (map f (x # y # ys)) = [] @ f p @ (sep @ join sep (map f (y # ys)))"
      by simp
    then show ?thesis by blast
  next
    case False
    with 3 obtain pre post where "join sep (map f (y # ys)) = pre @ f p @ post"
      by auto
    then have "join sep (map f (x # y # ys)) = (f x @ sep @ pre) @ f p @ post"
      by simp
    then show ?thesis by blast
  qed
qed

lemma message_lists_pair:
  assumes "p \<in> set AVAILABLE_CURRENCY_PAIRS"
  shows "\<exists>pre post. invalid_pair_message cp = pre @ repr_str p @ post"
proof -
  from join_contains [OF assms, of "'', ''" repr_str]
  obtain pre post where "join '', '' (map repr_str AVAILABLE_CURRENCY_PAIRS) = pre @ repr_str p @ post"
    by blast
  then have "invalid_pair_message cp =
      (cp @ '' is not a valid currency pair. You must use one of: '' @ [CHR 0x0A] @ ''['' @ pre)
        @ repr_str p @ (post @ '']'')"
    by (simp add: invalid_pair_message_def repr_str_list_def)
  then show ?thesis by blast
qed

text \<open>
  Claim C3. When the text parses to an object with the key \<open>error\<close>,
  \<open>parse_api_data_text\<close> raises an exception: for the value \<open>Invalid currency pair.\<close> its
  message names the pair of the instance and ends with the whole list
  \<open>AVAILABLE_CURRENCY_PAIRS\<close>, so it shows every pair of the list; for any other value
  the message is \<open>API Error:\<close> followed by the value, which for a string is the string
  itself. When the text parses to an array, the array is returned. Both exceptions are
  the builtin \<open>Exception\<close>.
\<close>

theorem parse_api_data_text_cases:
  "(json_loads P text = Inr (JObject items) \<and> map_of items ''error'' = Some v \<longrightarrow>
      parse_api_data_text P self text =
        Inl (PyException (if v = JString ''Invalid currency pair.''
                          then invalid_pair_message (currency_pair self)
                          else api_error_message P v)))
   \<and> invalid_pair_message (currency_pair self) =
        currency_pair self @ '' is not a valid currency pair. You must use one of: ''
          @ [CHR 0x0A] @ repr_str_list AVAILABLE_CURRENCY_PAIRS
   \<and> (\<forall>p \<in> set AVAILABLE_CURRENCY_PAIRS.
        \<exists>pre post. invalid_pair_message (currency_pair self) = pre @ repr_str p @ post)
   \<and> api_error_message P (JString m) = ''API Error: '' @ m
   \<and> (json_loads P text = Inr (JArray xs) \<longrightarrow> parse_api_data_text P self text = Inr (JArray xs))"
proof (intro conjI impI ballI)
  assume "json_loads P text = Inr (JObject items) \<and> map_of items ''error'' = Some v"
  then show "parse_api_data_text P self text =
        Inl (PyException (if v = JString ''Invalid currency pair.''
                          then invalid_pair_message (currency_pair self)
                          else api_error_message P v))"
    by (simp add: parse_api_data_text_def)
next
  show "invalid_pair_message (currency_pair self) =
        currency_pair self @ '' is not a valid currency pair. You must use one of: ''
          @ [CHR 0x0A] @ repr_str_list AVAILABLE_CURRENCY_PAIRS"
    by (rule invalid_pair_message_def)
next
  fix p assume "p \<in> set AVAILABLE_CURRENCY_PAIRS"
  then show "\<exists>pre post. invalid_pair_message (currency_pair self) = pre @ repr_str p @ post"
    by (rule message_lists_pair)
next
  show "api_error_message P (JString m) = ''API Error: '' @ m"
    by (simp add: api_error_message_def format_value_def)
next
  assume "json_loads P text = Inr (JArray xs)"
  then show "parse_api_data_text P self text = Inr (JArray xs)"
    by (simp add: parse_api_data_text_def)
qed

lemma pair_listed: "''USDT_BTC'' \<in> set AVAILABLE_CURRENCY_PAIRS"
  by (simp add: AVAILABLE_CURRENCY_PAIRS_def)

lemma loads_samples:
  "json_loads W0 ''invalid pair'' = Inr (JObject [(''error'', JString ''Invalid currency pair.'')])"
  "json_loads W0 ''other error'' = Inr (JObject [(''error'', JString ''something else'')])"
  "json_loads W0 ''candles'' = Inr (JArray [JObject candle_late, JObject candle_early])"
  by (simp_all add: W0_def invalid_pair_object_def other_error_object_def sample_parsed_def)

theorem parse_api_data_text_witness:
  "parse_api_data_text W0 self0 ''invalid pair'' = Inl (PyException (invalid_pair_message ''USDT_BTC''))
   \<and> parse_api_data_text W0 self0 ''other error'' = Inl (PyException ''API Error: something else'')
   \<and> (\<exists>pre post. invalid_pair_message ''USDT_BTC'' = pre @ repr_str ''USDT_BTC'' @ post)
   \<and> parse_api_data_text W0 self0 ''candles'' = Inr sample_parsed"
proof -
  have cp: "currency_pair self0 = ''USDT_BTC''"
    by (simp add: self0_def)
  have m: "map_of [(''error'', v)] ''error'' = Some v" for v :: json
    by simp
  note a = parse_api_data_text_cases [of W0 "''invalid pair''"
      "[(''error'', JString ''Invalid currency pair.'')]" "JString ''Invalid currency pair.''" self0]
  note b = parse_api_data_text_cases [of W0 "''other error''"
      "[(''error'', JString ''something else'')]" "JString ''something else''" self0
      "''something else''"]
  note c = parse_api_data_text_cases [of W0 "''candles''" _ _ self0 _
      "[JObject candle_late, JObject candle_early]"]
  from a have 1: "parse_api_data_text W0 self0 ''invalid pair''
      = Inl (PyException (invalid_pair_message ''USDT_BTC''))"
    using loads_samples(1) m cp by simp
  from b have 2: "parse_api_data_text W0 self0 ''other error''
      = Inl (PyException ''API Error: something else'')"
    using loads_samples(2) m by simp
  from a pair_listed cp
  have 3: "\<exists>pre post. invalid_pair_message ''USDT_BTC'' = pre @ repr_str ''USDT_BTC'' @ post"
    by metis
  from c have 4: "parse_api_data_text W0 self0 ''candles'' = Inr sample_parsed"
    using loads_samples(3) by (simp add: sample_parsed_def)
  from 1 2 3 4 show ?thesis by blast
qed

section \<open>The retry decorator and the pipeline\<close>

lemma retry_call_returns:
  "f sw = (Inr v, s', w') \<Longrightarrow> retry_call P f n sw = (Inr v, s', w')"
  by (subst retry_call.simps) simp

lemma retry_call_gives_up:
  "f sw = (Inl e, s', w') \<Longrightarrow> stop_max_attempt_number \<le> n \<Longrightarrow>
   retry_call P f n sw = (Inl e, s', w')"
  by (subst retry_call.simps) simp

lemma retry_call_again:
  "f sw = (Inl e, s', w') \<Longrightarrow> n < stop_max_attempt_number \<Longrightarrow>
   retry_call P f n sw = retry_call P f (Suc n) (s', random_sleep P w')"
  by (subst retry_call.simps) simp

lemma retry_call_skip:
  "(\<forall>j<k. isl (fst (f (attempt_state P f j sw)))) \<Longrightarrow> n + k \<le> stop_max_attempt_number \<Longrightarrow>
   retry_call P f n sw = retry_call P f (n + k) (attempt_state P f k sw)"
proof (induction k)
  case 0
  then show ?case by simp
next
  case (Suc k)
  then have ih: "retry_call P f n sw = retry_call P f (n + k) (attempt_state P f k sw)"
    by simp
  from Suc.prems have "isl (fst (f (attempt_state P f k sw)))"
    by simp
  then obtain e s' w' where fk: "f (attempt_state P f k sw) = (Inl e, s', w')"
    by (cases "f (attempt_state P f k sw)") (auto simp: isl_def)
  from Suc.prems have "n + k < stop_max_attempt_number"
    by simp
  from retry_call_again [where f = f and sw = "attempt_state P f k sw", OF fk this]
  have "retry_call P f (n + k) (attempt_state P f k sw)
      = retry_call P f (n + Suc k) (attempt_state P f (Suc k) sw)"
    by (simp add: fk)
  with ih show ?case by simp
qed

lemma retry_call_last:
  assumes "\<forall>j<6. isl (fst (f (attempt_state P f j sw)))"
  shows "retry_call P f 1 sw = retry_call P f 7 (attempt_state P f 6 sw)"
  using retry_call_skip [of 6 f P sw 1] assms by (simp add: stop_max_attempt_number_def)

lemma retry_call_seventh:
  "retry_call P f 7 sw = f sw"
proof (cases "f sw")
  case (fields r s' w')
  then show ?thesis
    by (cases r) (simp_all add: retry_call_gives_up retry_call_returns stop_max_attempt_number_def)
qed

lemma retry_call_bounded:
  "n + k = stop_max_attempt_number \<Longrightarrow>
   \<exists>i\<le>k. retry_call P f n sw = f (attempt_state P f i sw)
        \<and> (\<forall>j<i. isl (fst (f (attempt_state P f j sw))))"
proof (induction k arbitrary: n sw)
  case 0
  then have "retry_call P f n sw = f sw"
    using retry_call_seventh [of P f sw] by (simp add: stop_max_attempt_number_def)
  then show ?case by simp
next
  case (Suc k)
  obtain r s' w' where f: "f sw = (r, s', w')"
    by (cases "f sw")
  show ?case
  proof (cases r)
    case (Inr v)
    with f have "retry_call P f n sw = f (attempt_state P f 0 sw)"
      by (simp add: retry_call_returns)
    then show ?thesis by blast
  next
    case (Inl e)
    from Suc.prems have lt: "n < stop_max_attempt_number" by simp
    from Inl f have fe: "f sw = (Inl e, s', w')" by simp
    have shift: "attempt_state P f j (s', random_sleep P w') = attempt_state P f (Suc j) sw" for j
      by (induction j) (simp_all add: fe)
    from Suc.prems have "Suc n + k = stop_max_attempt_number" by simp
    from Suc.IH [OF this, of "(s', random_sleep P w')"]
    obtain i where i: "i \<le> k"
      "retry_call P f (Suc n) (s', random_sleep P w') = f (attempt_state P f (Suc i) sw)"
      "\<forall>j<i. isl (fst (f (attempt_state P f (Suc j) sw)))"
      unfolding shift by blast
    have "\<forall>j<Suc i. isl (fst (f (attempt_state P f j sw)))"
    proof (intro allI impI)
      fix j assume "j < Suc i"
      then show "isl (fst (f (attempt_state P f j sw)))"
        using i(3) fe by (cases j) simp_all
    qed
    moreover have "retry_call P f n sw = f (attempt_state P f (Suc i) sw)"
      using retry_call_again [where f = f and sw = sw, OF fe lt] i(2) by simp
    ultimately show ?thesis
      using i(1) by (intro exI [of _ "Suc i"]) simp
  qed
qed

lemma random_sleep_bounds:
  "random_sleep P w = w \<lparr> slept := slept w @ [1000 + random_draw P (length (slept w)) mod 1001] \<rparr>
   \<and> 1000 \<le> 1000 + random_draw P (length (slept w)) mod 1001
   \<and> 1000 + random_draw P (length (slept w)) mod 1001 \<le> 2000"
proof -
  have "random_draw P (length (slept w)) mod 1001 < 1001"
    by simp
  then show ?thesis
    by (simp add: random_sleep_def wait_random_min_def wait_random_max_def)
qed


lemma body_fetch_fails:
  "data self = None \<Longrightarrow> http_get P (url self) (requests_sent w) = Inl e \<Longrightarrow>
   run_body P save (self, w) = (Inl e, self, w \<lparr> requests_sent := Suc (requests_sent w) \<rparr>)"
  by (simp add: run_body_def get_api_data_def)

lemma body_fetch_succeeds:
  "data self = None \<Longrightarrow> http_get P (url self) (requests_sent w) = Inr t \<Longrightarrow>
   parse_api_data_text P self t = Inr parsed \<Longrightarrow>
   build_dataframe P self parsed = Inr self' \<Longrightarrow> data self' = Some df \<Longrightarrow>
   run_body P save (self, w) = finish P save self' df (w \<lparr> requests_sent := Suc (requests_sent w) \<rparr>)"
  by (simp add: run_body_def get_api_data_def)

lemma body_table_stored:
  "data self = Some df \<Longrightarrow> run_body P save (self, w) = finish P save self df w"
  by (simp add: run_body_def)

lemma failing_attempts:
  assumes "data self = None"
    and "\<forall>n<k. isl (http_get P (url self) (requests_sent w + n))"
  shows "\<exists>w'. attempt_state P (run_body P save) k (self, w) = (self, w')
      \<and> requests_sent w' = requests_sent w + k
      \<and> writes_tried w' = writes_tried w \<and> files w' = files w
      \<and> (\<exists>ds. slept w' = slept w @ ds \<and> length ds = k \<and> (\<forall>d\<in>set ds. 1000 \<le> d \<and> d \<le> 2000))"
  using assms(2)
proof (induction k)
  case 0
  then show ?case by simp
next
  case (Suc k)
  then obtain w1 ds where w1: "attempt_state P (run_body P save) k (self, w) = (self, w1)"
      "requests_sent w1 = requests_sent w + k" "writes_tried w1 = writes_tried w"
      "files w1 = files w" "slept w1 = slept w @ ds" "length ds = k"
      "\<forall>d\<in>set ds. 1000 \<le> d \<and> d \<le> 2000"
    by auto
  from Suc.prems have "isl (http_get P (url self) (requests_sent w + k))"
    by simp
  then obtain e where "http_get P (url self) (requests_sent w1) = Inl e"
    by (auto simp: isl_def w1(2))
  from body_fetch_fails [OF assms(1) this]
  have step: "attempt_state P (run_body P save) (Suc k) (self, w)
      = (self, random_sleep P (w1 \<lparr> requests_sent := Suc (requests_sent w1) \<rparr>))"
    by (simp add: w1(1))
  define d where "d = 1000 + random_draw P (length (slept w1)) mod 1001"
  have d: "1000 \<le> d" "d \<le> 2000"
    using random_sleep_bounds [of P w1] by (simp_all add: d_def)
  have sl: "random_sleep P (w1 \<lparr> requests_sent := Suc (requests_sent w1) \<rparr>)
      = w1 \<lparr> requests_sent := Suc (requests_sent w1), slept := slept w1 @ [d] \<rparr>"
    using random_sleep_bounds [of P "w1 \<lparr> requests_sent := Suc (requests_sent w1) \<rparr>"]
    by (simp add: d_def)
  have "slept w1 @ [d] = slept w @ (ds @ [d])" "length (ds @ [d]) = Suc k"
    "\<forall>x\<in>set (ds @ [d]). 1000 \<le> x \<and> x \<le> 2000"
    using w1 d by simp_all
  then have "\<exists>es. slept w1 @ [d] = slept w @ es \<and> length es = Suc k
      \<and> (\<forall>x\<in>set es. 1000 \<le> x \<and> x \<le> 2000)"
    by blast
  then show ?case
    unfolding step sl using w1 by simp
qed

lemma failing_attempt_raises:
  assumes "data self = None"
    and "\<forall>n<k. isl (http_get P (url self) (requests_sent w + n))"
    and "j < k"
  shows "\<exists>e w'. run_body P save (attempt_state P (run_body P save) j (self, w)) = (Inl e, self, w')
      \<and> http_get P (url self) (requests_sent w + j) = Inl e
      \<and> requests_sent w' = requests_sent w + Suc j
      \<and> writes_tried w' = writes_tried w \<and> files w' = files w
      \<and> (\<exists>ds. slept w' = slept w @ ds \<and> length ds = j \<and> (\<forall>d\<in>set ds. 1000 \<le> d \<and> d \<le> 2000))"
proof -
  from assms(2,3) have "\<forall>n<j. isl (http_get P (url self) (requests_sent w + n))"
    by simp
  from failing_attempts [OF assms(1) this, of save]
  obtain w1 where w1: "attempt_state P (run_body P save) j (self, w) = (self, w1)"
      "requests_sent w1 = requests_sent w + j" "writes_tried w1 = writes_tried w"
      "files w1 = files w"
      "\<exists>ds. slept w1 = slept w @ ds \<and> length ds = j \<and> (\<forall>d\<in>set ds. 1000 \<le> d \<and> d \<le> 2000)"
    by blast
  from assms(2,3) obtain e where e: "http_get P (url self) (requests_sent w1) = Inl e"
    by (auto simp: isl_def w1(2))
  from body_fetch_fails [OF assms(1) e, of save] w1 e
  show ?thesis by simp
qed

text \<open>
  Claim C5. The decorated call makes at most seven attempts and returns what the first
  attempt that does not raise returns: when the first six attempts raise and the seventh
  returns, its result is returned; when seven attempts raise, the exception of the
  seventh is raised and there is no eighth. Before each new attempt the process sleeps a
  whole number of milliseconds between 1000 and 2000. For \<open>run\<close> on a network that
  refuses every request this means exactly seven requests and six sleeps, and the
  exception of the seventh request.
\<close>

theorem retry_seven_attempts:
  "((\<forall>j<6. isl (fst (f (attempt_state P f j sw)))) \<and> f (attempt_state P f 6 sw) = (Inr v, s', w')
      \<longrightarrow> retry_call P f 1 sw = (Inr v, s', w'))
   \<and> ((\<forall>j<7. isl (fst (f (attempt_state P f j sw))))
      \<longrightarrow> retry_call P f 1 sw = f (attempt_state P f 6 sw))
   \<and> (\<exists>i\<le>6. retry_call P f 1 sw = f (attempt_state P f i sw)
        \<and> (\<forall>j<i. isl (fst (f (attempt_state P f j sw)))))
   \<and> (\<exists>d. random_sleep P w = w \<lparr> slept := slept w @ [d] \<rparr> \<and> 1000 \<le> d \<and> d \<le> 2000)
   \<and> (data self = None \<and> (\<forall>n. isl (http_get P (url self) n))
      \<longrightarrow> (\<exists>e w'. run P save (self, w) = (Inl e, self, w')
            \<and> http_get P (url self) (requests_sent w + 6) = Inl e
            \<and> requests_sent w' = requests_sent w + 7
            \<and> (\<exists>ds. slept w' = slept w @ ds \<and> length ds = 6
                  \<and> (\<forall>d\<in>set ds. 1000 \<le> d \<and> d \<le> 2000))))"
proof (intro conjI impI)
  assume h: "(\<forall>j<6. isl (fst (f (attempt_state P f j sw)))) \<and> f (attempt_state P f 6 sw) = (Inr v, s', w')"
  then have "retry_call P f 1 sw = retry_call P f 7 (attempt_state P f 6 sw)"
    by (intro retry_call_last) simp
  with h show "retry_call P f 1 sw = (Inr v, s', w')"
    by (simp add: retry_call_seventh)
next
  assume "\<forall>j<7. isl (fst (f (attempt_state P f j sw)))"
  then have "retry_call P f 1 sw = retry_call P f 7 (attempt_state P f 6 sw)"
    by (intro retry_call_last) simp
  then show "retry_call P f 1 sw = f (attempt_state P f 6 sw)"
    by (simp add: retry_call_seventh)
next
  show "\<exists>i\<le>6. retry_call P f 1 sw = f (attempt_state P f i sw)
        \<and> (\<forall>j<i. isl (fst (f (attempt_state P f j sw))))"
    using retry_call_bounded [of 1 6 P f sw] by (simp add: stop_max_attempt_number_def)
next
  show "\<exists>d. random_sleep P w = w \<lparr> slept := slept w @ [d] \<rparr> \<and> 1000 \<le> d \<and> d \<le> 2000"
    using random_sleep_bounds [of P w] by blast
next
  assume h: "data self = None \<and> (\<forall>n. isl (http_get P (url self) n))"
  then have none: "data self = None"
    and down: "\<forall>n<7. isl (http_get P (url self) (requests_sent w + n))"
    by simp_all
  have "\<forall>j<6. isl (fst (run_body P save (attempt_state P (run_body P save) j (self, w))))"
  proof (intro allI impI)
    fix j :: nat assume "j < 6"
    then have "j < 7" by simp
    from failing_attempt_raises [OF none down this, of save]
    show "isl (fst (run_body P save (attempt_state P (run_body P save) j (self, w))))"
      by auto
  qed
  then have "retry_call P (run_body P save) 1 (self, w)
      = retry_call P (run_body P save) 7 (attempt_state P (run_body P save) 6 (self, w))"
    by (rule retry_call_last)
  then have "run P save (self, w)
      = run_body P save (attempt_state P (run_body P save) 6 (self, w))"
    by (simp add: run_def retry_call_seventh)
  with failing_attempt_raises [OF none down, of 6 save]
  show "\<exists>e w'. run P save (self, w) = (Inl e, self, w')
            \<and> http_get P (url self) (requests_sent w + 6) = Inl e
            \<and> requests_sent w' = requests_sent w + 7
            \<and> (\<exists>ds. slept w' = slept w @ ds \<and> length ds = 6
                  \<and> (\<forall>d\<in>set ds. 1000 \<le> d \<and> d \<le> 2000))"
    by auto
qed

lemma build_sample_any:
  "build_dataframe P s sample_parsed = Inr (s \<lparr> data := Some sample_frame \<rparr>)"
  by (simp add: build_dataframe_def DataFrame_def is_object_def items_of_def
  frame_of_records_def first_keys_def row_of_def get_column_def lookup_cell_def
  utcfromtimestamp_def set_column_def sort_values_def datetime_key_def select_columns_def cols_def sample_parsed_def candle_late_def candle_early_def sample_frame_def
      candle_row_def date_of_def)

lemma finish_facts:
  assumes "finish P save s d w1 = (r, self', w')" and "data s = Some d"
    and "destination self = destination s"
    and "files w1 = files w" and "writes_tried w1 = writes_tried w"
  shows "attempt_facts P save self w r self' w' \<and> self' = s
    \<and> requests_sent w' = requests_sent w1"
proof (cases save)
  case False
  with assms(1) have "r = Inr (Data d)" "self' = s" "w' = w1"
    by (simp_all add: finish_def)
  with assms(2-5) False show ?thesis
    by (simp add: attempt_facts_def)
next
  case True
  show ?thesis
  proof (cases "destination s")
    case None
    with assms(1) True have "r = Inr Self" "self' = s" "w' = w1"
      by (simp_all add: finish_def save_data_def)
    with assms(2-5) True None show ?thesis
      by (simp add: attempt_facts_def)
  next
    case (Some path)
    show ?thesis
    proof (cases "open_write P path (writes_tried w1)")
      case True
      with assms(1) \<open>save\<close> Some have "r = Inr Self" "self' = s"
        "w' = w1 \<lparr> writes_tried := Suc (writes_tried w1),
                   files := (files w1)(path \<mapsto> to_csv_text P d) \<rparr>"
        by (simp_all add: finish_def save_data_def)
      with assms(2-5) \<open>save\<close> Some show ?thesis
        by (auto simp: attempt_facts_def)
    next
      case False
      with assms(1) \<open>save\<close> Some have "r = Inl OSError" "self' = s"
        "w' = w1 \<lparr> writes_tried := Suc (writes_tried w1) \<rparr>"
        by (simp_all add: finish_def save_data_def)
      with assms(2-5) \<open>save\<close> Some show ?thesis
        by (auto simp: attempt_facts_def)
    qed
  qed
qed

lemma raise_facts:
  assumes "data self = None" and "files w1 = files w" and "writes_tried w1 = writes_tried w"
  shows "attempt_facts P save self w (Inl e) self w1"
  using assms by (simp add: attempt_facts_def)

lemma body_no_table:
  assumes "run_body P save (self, w) = (r, self', w')" and "data self = None"
  shows "requests_sent w' = Suc (requests_sent w) \<and> attempt_facts P save self w r self' w'"
proof -
  define w1 where "w1 = w \<lparr> requests_sent := Suc (requests_sent w) \<rparr>"
  have g: "get_api_data P self w = (http_get P (url self) (requests_sent w), w1)"
    by (simp add: get_api_data_def w1_def)
  have w1: "requests_sent w1 = Suc (requests_sent w)" "files w1 = files w"
    "writes_tried w1 = writes_tried w"
    by (simp_all add: w1_def)
  note raised = raise_facts [OF assms(2) w1(2) w1(3), of P save]
  consider (net) e where "http_get P (url self) (requests_sent w) = Inl e"
    | (parse) t e where "http_get P (url self) (requests_sent w) = Inr t"
        "parse_api_data_text P self t = Inl e"
    | (build) t parsed e where "http_get P (url self) (requests_sent w) = Inr t"
        "parse_api_data_text P self t = Inr parsed" "build_dataframe P self parsed = Inl e"
    | (ok) t parsed s1 where "http_get P (url self) (requests_sent w) = Inr t"
        "parse_api_data_text P self t = Inr parsed" "build_dataframe P self parsed = Inr s1"
    by (metis sum.exhaust_sel)
  then show ?thesis
  proof cases
    case net
    with assms g have "(r, self', w') = (Inl e, self, w1)"
      by (simp add: run_body_def)
    then have "r = Inl e" "self' = self" "w' = w1"
      by simp_all
    with w1(1) raised [of e] show ?thesis
      by simp
  next
    case parse
    with assms g have "(r, self', w') = (Inl e, self, w1)"
      by (simp add: run_body_def)
    then have "r = Inl e" "self' = self" "w' = w1"
      by simp_all
    with w1(1) raised [of e] show ?thesis
      by simp
  next
    case build
    with assms g have "(r, self', w') = (Inl e, self, w1)"
      by (simp add: run_body_def)
    then have "r = Inl e" "self' = self" "w' = w1"
      by simp_all
    with w1(1) raised [of e] show ?thesis
      by simp
  next
    case ok
    from build_dataframe_data [OF ok(3)] obtain d where s1: "s1 = self \<lparr> data := Some d \<rparr>"
      by blast
    then have s1_fields: "data s1 = Some d" "destination self = destination s1"
      by simp_all
    from assms g ok s1_fields(1) have "finish P save s1 d w1 = (r, self', w')"
      by (simp add: run_body_def)
    note ff = finish_facts [OF this s1_fields w1(2) w1(3)]
    from ff have "attempt_facts P save self w r self' w'" and "requests_sent w' = requests_sent w1"
      by (rule conjunct1, rule conjunct2 [THEN conjunct2])
    with w1(1) show ?thesis
      by simp
  qed
qed

lemma body_with_table:
  assumes "run_body P save (self, w) = (r, self', w')" and "data self = Some df"
  shows "requests_sent w' = requests_sent w \<and> self' = self
    \<and> attempt_facts P save self w r self' w'"
proof -
  from assms have "finish P save self df w = (r, self', w')"
    by (simp add: body_table_stored)
  note ff = finish_facts [OF this assms(2) refl refl refl]
  from ff have "attempt_facts P save self w r self' w'" and "self' = self"
    and "requests_sent w' = requests_sent w"
    by (rule conjunct1, rule conjunct2 [THEN conjunct1], rule conjunct2 [THEN conjunct2])
  then show ?thesis
    by simp
qed

lemma attempt_facts_parts:
  assumes "attempt_facts P save self w r self' w'"
  shows "data self' = None \<longrightarrow> isl r \<and> self' = self \<and> files w' = files w
        \<and> writes_tried w' = writes_tried w"
    and "data self' \<noteq> None \<and> isl r \<longrightarrow> save \<and> destination self' \<noteq> None \<and> files w' = files w
        \<and> writes_tried w' = Suc (writes_tried w)"
    and "\<forall>path df. save \<and> destination self' = Some path \<and> data self' = Some df \<and> r = Inr Self
        \<longrightarrow> files w' = (files w)(path \<mapsto> to_csv_text P df)"
    and "destination self' = destination self"
    and "destination self = None \<longrightarrow> files w' = files w \<and> writes_tried w' = writes_tried w
        \<and> (\<forall>d. data self' = Some d \<longrightarrow> r = (if save then Inr Self else Inr (Data d)))"
  using assms [unfolded attempt_facts_def]
  by (rule conjunct1, rule conjunct2 [THEN conjunct1],
      rule conjunct2 [THEN conjunct2, THEN conjunct1],
      rule conjunct2 [THEN conjunct2, THEN conjunct2, THEN conjunct1],
      rule conjunct2 [THEN conjunct2, THEN conjunct2, THEN conjunct2])

text \<open>
  Claim C1, amended. An attempt of \<open>run\<close> sends the request exactly when the instance
  holds no table. An attempt that leaves no table has raised, has written nothing and
  has left the instance as it was, so the next attempt starts from the network call. An
  attempt that raises with a table stored has failed in \<open>save_data\<close>; the table stays,
  and the attempts after it send no request and only save again. A save that succeeds
  leaves the file with the text of the table, whatever it held before.
\<close>

theorem attempt_fetches_unless_table_stored:
  "run_body P save (self, w) = (r, self', w') \<Longrightarrow>
     (data self = None \<longrightarrow> requests_sent w' = Suc (requests_sent w))
   \<and> (data self \<noteq> None \<longrightarrow> requests_sent w' = requests_sent w \<and> self' = self)
   \<and> (data self' = None \<longrightarrow> isl r \<and> self' = self \<and> files w' = files w
        \<and> writes_tried w' = writes_tried w)
   \<and> (data self' \<noteq> None \<and> isl r \<longrightarrow> save \<and> destination self' \<noteq> None \<and> files w' = files w
        \<and> writes_tried w' = Suc (writes_tried w))
   \<and> (\<forall>path df. save \<and> destination self' = Some path \<and> data self' = Some df \<and> r = Inr Self
        \<longrightarrow> files w' = (files w)(path \<mapsto> to_csv_text P df))"
proof (cases "data self")
  case None
  assume "run_body P save (self, w) = (r, self', w')"
  note bn = body_no_table [OF this None]
  from bn have rq: "requests_sent w' = Suc (requests_sent w)"
    and af: "attempt_facts P save self w r self' w'"
    by (rule conjunct1, rule conjunct2)
  note parts = attempt_facts_parts [OF af]
  show ?thesis
  proof (intro conjI)
    show "data self = None \<longrightarrow> requests_sent w' = Suc (requests_sent w)"
      using rq by simp
    show "data self \<noteq> None \<longrightarrow> requests_sent w' = requests_sent w \<and> self' = self"
      using None by simp
  qed (rule parts(1), rule parts(2), rule parts(3))
next
  case (Some df)
  assume "run_body P save (self, w) = (r, self', w')"
  note bt = body_with_table [OF this Some]
  from bt have rq: "requests_sent w' = requests_sent w" "self' = self"
    and af: "attempt_facts P save self w r self' w'"
    by (rule conjunct1, rule conjunct2 [THEN conjunct1], rule conjunct2 [THEN conjunct2])
  note parts = attempt_facts_parts [OF af]
  show ?thesis
  proof (intro conjI)
    show "data self = None \<longrightarrow> requests_sent w' = Suc (requests_sent w)"
      using Some by simp
    show "data self \<noteq> None \<longrightarrow> requests_sent w' = requests_sent w \<and> self' = self"
      using rq by simp
  qed (rule parts(1), rule parts(2), rule parts(3))
qed

lemma sample_parse:
  "json_loads P = json_loads W0 \<Longrightarrow> parse_api_data_text P s ''candles'' = Inr sample_parsed"
  by (simp add: parse_api_data_text_def W0_def sample_parsed_def)

lemma disk_first_attempt:
  "run_body W_disk True (self_out, w0)
     = (Inl OSError, self_out \<lparr> data := Some sample_frame \<rparr>,
        w0 \<lparr> requests_sent := 1, writes_tried := 1 \<rparr>)"
proof -
  have "run_body W_disk True (self_out, w0)
      = finish W_disk True (self_out \<lparr> data := Some sample_frame \<rparr>) sample_frame
          (w0 \<lparr> requests_sent := Suc (requests_sent w0) \<rparr>)"
  proof (rule body_fetch_succeeds)
    show "data self_out = None"
      by (simp add: self_out_def self0_def)
    show "http_get W_disk (url self_out) (requests_sent w0) = Inr ''candles''"
      by (simp add: W_disk_def W0_def)
    show "parse_api_data_text W_disk self_out ''candles'' = Inr sample_parsed"
      by (rule sample_parse) (simp add: W_disk_def)
    show "build_dataframe W_disk self_out sample_parsed = Inr (self_out \<lparr> data := Some sample_frame \<rparr>)"
      by (rule build_sample_any)
    show "data (self_out \<lparr> data := Some sample_frame \<rparr>) = Some sample_frame"
      by simp
  qed
  then show ?thesis
    by (simp add: finish_def save_data_def self_out_def W_disk_def W0_def w0_def)
qed

lemma disk_second_attempt:
  "run_body W_disk True (self_out \<lparr> data := Some sample_frame \<rparr>,
       random_sleep W_disk (w0 \<lparr> requests_sent := 1, writes_tried := 1 \<rparr>))
     = (Inr Self, self_out \<lparr> data := Some sample_frame \<rparr>,
        w0 \<lparr> requests_sent := 1, writes_tried := 2,
             files := (files w0)(''out.csv'' \<mapsto> to_csv_text W_disk sample_frame),
             slept := [1000 + 1234 mod 1001] \<rparr>)"
  by (simp add: body_table_stored finish_def save_data_def self_out_def random_sleep_def
      wait_random_min_def wait_random_max_def W_disk_def W0_def w0_def)

lemma disk_run:
  "run W_disk True (self_out, w0)
     = (Inr Self, self_out \<lparr> data := Some sample_frame \<rparr>,
        w0 \<lparr> requests_sent := 1, writes_tried := 2,
             files := (files w0)(''out.csv'' \<mapsto> to_csv_text W_disk sample_frame),
             slept := [1000 + 1234 mod 1001] \<rparr>)"
proof -
  have "run W_disk True (self_out, w0)
      = retry_call W_disk (run_body W_disk True) (Suc 1) (self_out \<lparr> data := Some sample_frame \<rparr>,
          random_sleep W_disk (w0 \<lparr> requests_sent := 1, writes_tried := 1 \<rparr>))"
    unfolding run_def
    using retry_call_again [where f = "run_body W_disk True" and sw = "(self_out, w0)"
        and P = W_disk and n = 1, OF disk_first_attempt]
    by (simp add: stop_max_attempt_number_def)
  also have "\<dots> = (Inr Self, self_out \<lparr> data := Some sample_frame \<rparr>,
        w0 \<lparr> requests_sent := 1, writes_tried := 2,
             files := (files w0)(''out.csv'' \<mapsto> to_csv_text W_disk sample_frame),
             slept := [1000 + 1234 mod 1001] \<rparr>)"
    by (rule retry_call_returns [where f = "run_body W_disk True", OF disk_second_attempt])
  finally show ?thesis .
qed

text \<open>
  Claim C1 as stated fails when the stage that fails is the save: on a disk whose first
  write fails, \<open>run\<close> makes two attempts, with one sleep and two writes, and sends one
  request only.
\<close>

theorem save_failure_is_not_refetched_counterexample:
  "fst (run W_disk True (self_out, w0)) = Inr Self
   \<and> writes_tried (snd (snd (run W_disk True (self_out, w0)))) = 2
   \<and> length (slept (snd (snd (run W_disk True (self_out, w0))))) = 1
   \<and> requests_sent (snd (snd (run W_disk True (self_out, w0)))) = 1"
  by (simp add: disk_run)

theorem attempt_fetches_witness:
  "run_body W_disk True (self_out, w0)
     = (Inl OSError, self_out \<lparr> data := Some sample_frame \<rparr>,
        w0 \<lparr> requests_sent := 1, writes_tried := 1 \<rparr>)
   \<and> requests_sent (w0 \<lparr> requests_sent := 1, writes_tried := 1 \<rparr>) = Suc (requests_sent w0)
   \<and> files (w0 \<lparr> requests_sent := 1, writes_tried := 1 \<rparr>) = files w0
   \<and> requests_sent (snd (snd (run_body W_disk True (self_out \<lparr> data := Some sample_frame \<rparr>,
        random_sleep W_disk (w0 \<lparr> requests_sent := 1, writes_tried := 1 \<rparr>))))) = 1
   \<and> files (snd (snd (run_body W_disk True (self_out \<lparr> data := Some sample_frame \<rparr>,
        random_sleep W_disk (w0 \<lparr> requests_sent := 1, writes_tried := 1 \<rparr>)))))
       = (files w0)(''out.csv'' \<mapsto> to_csv_text W_disk sample_frame)"
proof -
  note first = attempt_fetches_unless_table_stored [OF disk_first_attempt]
  have "data self_out = None"
    by (simp add: self_out_def self0_def)
  with first have 1: "requests_sent (w0 \<lparr> requests_sent := 1, writes_tried := 1 \<rparr>) = Suc (requests_sent w0)"
    "files (w0 \<lparr> requests_sent := 1, writes_tried := 1 \<rparr>) = files w0"
    by simp_all
  show ?thesis
    unfolding disk_second_attempt using disk_first_attempt 1 by simp
qed

lemma self0_fields: "data self0 = None" "destination self0 = None"
  by (simp_all add: self0_def)

theorem retry_seven_attempts_witness:
  "fst (run W_flaky False (self0, w0)) = Inr (Data sample_frame)
   \<and> (\<exists>w'. run W_down True (self0, w0) = (Inl RequestException, self0, w')
          \<and> requests_sent w' = requests_sent w0 + 7 \<and> length (slept w') = 6)"
proof -
  have flaky: "\<forall>n<6. isl (http_get W_flaky (url self0) (requests_sent w0 + n))"
    by (simp add: W_flaky_def w0_def)
  have fails: "\<forall>j<6. isl (fst (run_body W_flaky False
        (attempt_state W_flaky (run_body W_flaky False) j (self0, w0))))"
  proof (intro allI impI)
    fix j :: nat assume "j < 6"
    from failing_attempt_raises [OF self0_fields(1) flaky this, of False]
    show "isl (fst (run_body W_flaky False
        (attempt_state W_flaky (run_body W_flaky False) j (self0, w0))))"
      by auto
  qed
  from failing_attempts [OF self0_fields(1) flaky, of False]
  obtain w6 where w6: "attempt_state W_flaky (run_body W_flaky False) 6 (self0, w0) = (self0, w6)"
      "requests_sent w6 = requests_sent w0 + 6"
    by blast
  have "run_body W_flaky False (self0, w6)
      = finish W_flaky False (self0 \<lparr> data := Some sample_frame \<rparr>) sample_frame
          (w6 \<lparr> requests_sent := Suc (requests_sent w6) \<rparr>)"
  proof (rule body_fetch_succeeds)
    show "data self0 = None"
      by (rule self0_fields)
    show "http_get W_flaky (url self0) (requests_sent w6) = Inr ''candles''"
      by (simp add: w6(2) w0_def W_flaky_def)
    show "parse_api_data_text W_flaky self0 ''candles'' = Inr sample_parsed"
      by (rule sample_parse) (simp add: W_flaky_def)
    show "build_dataframe W_flaky self0 sample_parsed = Inr (self0 \<lparr> data := Some sample_frame \<rparr>)"
      by (rule build_sample_any)
    show "data (self0 \<lparr> data := Some sample_frame \<rparr>) = Some sample_frame"
      by simp
  qed
  then have seventh: "run_body W_flaky False (attempt_state W_flaky (run_body W_flaky False) 6 (self0, w0))
      = (Inr (Data sample_frame), self0 \<lparr> data := Some sample_frame \<rparr>,
         w6 \<lparr> requests_sent := Suc (requests_sent w6) \<rparr>)"
    by (simp add: w6(1) finish_def)
  note t = retry_seven_attempts [where f = "run_body W_flaky False" and P = W_flaky
      and sw = "(self0, w0)" and v = "Data sample_frame"
      and s' = "self0 \<lparr> data := Some sample_frame \<rparr>"
      and w' = "w6 \<lparr> requests_sent := Suc (requests_sent w6) \<rparr>", THEN conjunct1]
  note u = retry_seven_attempts [where P = W_down and self = self0 and save = True and w = w0,
      THEN conjunct2, THEN conjunct2, THEN conjunct2, THEN conjunct2]
  from t fails seventh have 1: "fst (run W_flaky False (self0, w0)) = Inr (Data sample_frame)"
    by (simp add: run_def)
  have down: "\<forall>n. isl (http_get W_down (url self0) n)"
    by (simp add: W_down_def)
  with u self0_fields(1)
  obtain e w' where r: "run W_down True (self0, w0) = (Inl e, self0, w')"
      "http_get W_down (url self0) (requests_sent w0 + 6) = Inl e"
      "requests_sent w' = requests_sent w0 + 7"
      "\<exists>ds. slept w' = slept w0 @ ds \<and> length ds = 6 \<and> (\<forall>d\<in>set ds. 1000 \<le> d \<and> d \<le> 2000)"
    by blast
  from r(2) have "e = RequestException"
    by (simp add: W_down_def)
  moreover from r(4) have "length (slept w') = 6"
    by (auto simp: w0_def)
  ultimately show ?thesis
    using 1 r(1,3) by blast
qed

lemma strptime_default: "strptime ''2015-01-01'' = Inr (2015, 1, 1)"
  by (simp add: strptime_def parse_year_def parse_month_def parse_day_def
      is_digit_def digit_val_def days_in_month_def is_leap_def)

lemma init_default_destination: "\<exists>c. init_default P = Inr c \<and> destination c = None"
  by (simp add: init_default_def init_def get_timestamp_def strptime_default)

lemma attempt_facts_hold:
  assumes "run_body P save (self, w) = (r, self', w')"
  shows "attempt_facts P save self w r self' w'"
proof (cases "data self")
  case None
  from body_no_table [OF assms None] show ?thesis
    by (rule conjunct2)
next
  case (Some df)
  from body_with_table [OF assms Some] show ?thesis
    by (rule conjunct2 [THEN conjunct2])
qed

lemma none_attempt:
  assumes "destination self = None" and "run_body P True (self, w) = (r, self', w')"
  shows "destination self' = None \<and> files w' = files w \<and> writes_tried w' = writes_tried w
      \<and> (r = Inr Self \<longleftrightarrow> data self' \<noteq> None)"
proof -
  note parts = attempt_facts_parts [OF attempt_facts_hold [OF assms(2)]]
  from parts(4) assms(1) have dest: "destination self' = None"
    by simp
  from parts(5) assms(1) have same: "files w' = files w" "writes_tried w' = writes_tried w"
    and ok: "\<forall>d. data self' = Some d \<longrightarrow> r = Inr Self"
    by simp_all
  have "r = Inr Self \<longleftrightarrow> data self' \<noteq> None"
  proof (cases "data self'")
    case None
    with parts(1) have "isl r" by simp
    with None show ?thesis by auto
  next
    case (Some d)
    with ok show ?thesis by simp
  qed
  with dest same show ?thesis by simp
qed

lemma none_retry:
  "destination self = None \<Longrightarrow> retry_call P (run_body P True) n (self, w) = (r, self', w') \<Longrightarrow>
   files w' = files w \<and> writes_tried w' = writes_tried w \<and> (r = Inr Self \<longleftrightarrow> data self' \<noteq> None)"
proof (induction "stop_max_attempt_number - n" arbitrary: n self w)
  case 0
  obtain r1 s1 w1 where b: "run_body P True (self, w) = (r1, s1, w1)"
    by (cases "run_body P True (self, w)")
  from 0 have "stop_max_attempt_number \<le> n" by simp
  with b have "retry_call P (run_body P True) n (self, w) = (r1, s1, w1)"
    by (cases r1) (simp_all add: retry_call_returns retry_call_gives_up)
  with 0 b none_attempt [OF "0.prems"(1) b] show ?case
    by simp
next
  case (Suc k)
  obtain r1 s1 w1 where b: "run_body P True (self, w) = (r1, s1, w1)"
    by (cases "run_body P True (self, w)")
  note a = none_attempt [OF Suc.prems(1) b]
  show ?case
  proof (cases r1)
    case (Inr v)
    with b have "retry_call P (run_body P True) n (self, w) = (r1, s1, w1)"
      by (simp add: retry_call_returns)
    with Suc.prems a show ?thesis by simp
  next
    case (Inl e)
    from Suc.hyps(2) have lt: "n < stop_max_attempt_number" by simp
    from Inl b have be: "run_body P True (self, w) = (Inl e, s1, w1)" by simp
    from retry_call_again [where f = "run_body P True" and sw = "(self, w)", OF be lt]
    have next_call: "retry_call P (run_body P True) (Suc n) (s1, random_sleep P w1) = (r, self', w')"
      using Suc.prems(2) by simp
    from Suc.hyps(2) have "k = stop_max_attempt_number - Suc n" by simp
    from Suc.hyps(1) [OF this _ next_call] a
    show ?thesis
      by (simp add: random_sleep_def)
  qed
qed

text \<open>
  Claim C10. The default destination is \<open>None\<close>. With no destination, \<open>save_data\<close>
  returns without touching the world; \<open>run\<close> with \<open>save\<close> true leaves the files as
  they were and tries no write, whatever it returns, and it returns the instance exactly
  when a table has been stored: at once when the table is there already, and after one
  request when the request is answered and the answer parses and converts.
\<close>

theorem no_destination_writes_nothing:
  "(\<exists>c. init_default P = Inr c \<and> destination c = None)
   \<and> (destination self = None \<longrightarrow> save_data P self df w = (Inr (), w))
   \<and> (destination self = None \<and> run P True (self, w) = (r, self', w')
        \<longrightarrow> files w' = files w \<and> writes_tried w' = writes_tried w
            \<and> (r = Inr Self \<longleftrightarrow> data self' \<noteq> None))
   \<and> (destination self = None \<and> data self = Some df
        \<longrightarrow> run P True (self, w) = (Inr Self, self, w))
   \<and> (destination self = None \<and> data self = None
        \<and> http_get P (url self) (requests_sent w) = Inr t
        \<and> parse_api_data_text P self t = Inr parsed
        \<and> build_dataframe P self parsed = Inr s1
        \<longrightarrow> run P True (self, w) = (Inr Self, s1, w \<lparr> requests_sent := Suc (requests_sent w) \<rparr>))"
proof (intro conjI impI)
  show "\<exists>c. init_default P = Inr c \<and> destination c = None"
    by (rule init_default_destination)
next
  assume "destination self = None"
  then show "save_data P self df w = (Inr (), w)"
    by (simp add: save_data_def)
next
  assume "destination self = None \<and> run P True (self, w) = (r, self', w')"
  then show "files w' = files w" "writes_tried w' = writes_tried w"
    "r = Inr Self \<longleftrightarrow> data self' \<noteq> None"
    using none_retry [of self P 1 w r self' w'] by (simp_all add: run_def)
next
  assume "destination self = None \<and> data self = Some df"
  then have "run_body P True (self, w) = (Inr Self, self, w)"
    by (simp add: body_table_stored finish_def save_data_def)
  then show "run P True (self, w) = (Inr Self, self, w)"
    unfolding run_def by (rule retry_call_returns)
next
  assume h: "destination self = None \<and> data self = None
        \<and> http_get P (url self) (requests_sent w) = Inr t
        \<and> parse_api_data_text P self t = Inr parsed
        \<and> build_dataframe P self parsed = Inr s1"
  then obtain d where d: "s1 = self \<lparr> data := Some d \<rparr>"
    using build_dataframe_data by blast
  with h have "run_body P True (self, w)
      = finish P True s1 d (w \<lparr> requests_sent := Suc (requests_sent w) \<rparr>)"
    by (intro body_fetch_succeeds [where t = t and parsed = parsed]) simp_all
  with h d have "run_body P True (self, w)
      = (Inr Self, s1, w \<lparr> requests_sent := Suc (requests_sent w) \<rparr>)"
    by (simp add: finish_def save_data_def)
  then show "run P True (self, w) = (Inr Self, s1, w \<lparr> requests_sent := Suc (requests_sent w) \<rparr>)"
    unfolding run_def by (rule retry_call_returns)
qed

theorem no_destination_witness:
  "destination self0 = None
   \<and> run W0 True (self0, w0)
       = (Inr Self, self0 \<lparr> data := Some sample_frame \<rparr>, w0 \<lparr> requests_sent := 1 \<rparr>)
   \<and> files (w0 \<lparr> requests_sent := 1 \<rparr>) = files w0
   \<and> run W0 True (self0 \<lparr> data := Some sample_frame \<rparr>, w0)
       = (Inr Self, self0 \<lparr> data := Some sample_frame \<rparr>, w0)"
proof -
  have get: "http_get W0 (url self0) (requests_sent w0) = Inr ''candles''"
    by (simp add: W0_def)
  have parse: "parse_api_data_text W0 self0 ''candles'' = Inr sample_parsed"
    by (rule sample_parse) simp
  note a = no_destination_writes_nothing [where P = W0 and self = self0 and w = w0
      and t = "''candles''" and parsed = sample_parsed
      and ?s1.0 = "self0 \<lparr> data := Some sample_frame \<rparr>",
      THEN conjunct2, THEN conjunct2, THEN conjunct2, THEN conjunct2]
  note b = no_destination_writes_nothing [where P = W0
      and self = "self0 \<lparr> data := Some sample_frame \<rparr>" and df = sample_frame and w = w0,
      THEN conjunct2, THEN conjunct2, THEN conjunct2, THEN conjunct1]
  from a self0_fields get parse build_sample_any [of W0 self0]
  have 1: "run W0 True (self0, w0)
       = (Inr Self, self0 \<lparr> data := Some sample_frame \<rparr>, w0 \<lparr> requests_sent := 1 \<rparr>)"
    by (simp add: w0_def)
  from b self0_fields
  have 2: "run W0 True (self0 \<lparr> data := Some sample_frame \<rparr>, w0)
       = (Inr Self, self0 \<lparr> data := Some sample_frame \<rparr>, w0)"
    by simp
  from 1 2 self0_fields show ?thesis by simp
qed

end
